theory Spec2Isabelle
  imports Complex_Main
begin

section \<open>Parsing the ply-width string (WolveEngine.cpp, ParseDashSeparatedString)\<close>

text \<open>
  The source replaces every dash of the argument by a blank, loads the result into a
  \<^verbatim>\<open>std::istringstream\<close> and runs
  \<^verbatim>\<open>while (is) { TYPE j; if (is >> j) out.push_back(j); }\<close>
  with \<^verbatim>\<open>TYPE = std::size_t\<close>. The stream is modelled by the characters not yet read
  and its two state bits; \<^verbatim>\<open>while (is)\<close> and \<^verbatim>\<open>if (is >> j)\<close> both test
  \<^verbatim>\<open>!fail()\<close>. \<^verbatim>\<open>std::size_t\<close> is taken to be 64 bits wide.
\<close>

record istringstream =
  buf :: string
  failbit :: bool
  eofbit :: bool

definition SIZE_MAX :: nat where
  "SIZE_MAX = 2 ^ 64 - 1"

definition isspace_c :: "char \<Rightarrow> bool" where
  "isspace_c c = (c = CHR '' '' \<or> (9 \<le> (of_char c :: nat) \<and> (of_char c :: nat) \<le> 13))"

definition isdigit_c :: "char \<Rightarrow> bool" where
  "isdigit_c c = (48 \<le> (of_char c :: nat) \<and> (of_char c :: nat) \<le> 57)"

definition digit_val :: "char \<Rightarrow> nat" where
  "digit_val c = of_char c - 48"

text \<open>The value of a run of decimal digits, most significant digit first.\<close>

fun dec_value_acc :: "nat \<Rightarrow> string \<Rightarrow> nat" where
  "dec_value_acc acc [] = acc"
| "dec_value_acc acc (c # cs) = dec_value_acc (10 * acc + digit_val c) cs"

definition dec_value :: "string \<Rightarrow> nat" where
  "dec_value ds = dec_value_acc 0 ds"

text \<open>
  \<^verbatim>\<open>is >> j\<close> for an unsigned 64-bit \<^verbatim>\<open>j\<close> (the formatted input function of the
  standard library, decimal base, "C" locale). The sentry fails when the stream is not
  good; otherwise leading white space is skipped, and reaching the end there sets
  \<^verbatim>\<open>eofbit\<close> and \<^verbatim>\<open>failbit\<close>. Then an optional sign and the longest run of digits are
  read. No digit, or a value above \<^verbatim>\<open>SIZE_MAX\<close>, sets \<^verbatim>\<open>failbit\<close>; a minus sign negates
  modulo \<open>2 ^ 64\<close>. The second component is the value stored when the extraction succeeds.
\<close>

definition extract_size_t :: "istringstream \<Rightarrow> istringstream \<times> nat option" where
  "extract_size_t is =
     (if failbit is \<or> eofbit is then (is\<lparr>failbit := True\<rparr>, None)
      else
        (case dropWhile isspace_c (buf is) of
           [] \<Rightarrow> (\<lparr>buf = [], failbit = True, eofbit = True\<rparr>, None)
         | c # cs \<Rightarrow>
             (let neg = (c = CHR ''-'');
                  s = (if c = CHR ''-'' \<or> c = CHR ''+'' then cs else c # cs);
                  ds = takeWhile isdigit_c s;
                  rest = dropWhile isdigit_c s;
                  v = dec_value ds
              in if ds = [] then (\<lparr>buf = rest, failbit = True, eofbit = (rest = [])\<rparr>, None)
                 else if SIZE_MAX < v
                   then (\<lparr>buf = rest, failbit = True, eofbit = (rest = [])\<rparr>, None)
                 else (\<lparr>buf = rest, failbit = False, eofbit = (rest = [])\<rparr>,
                       Some (if neg then (2 ^ 64 - v) mod 2 ^ 64 else v)))))"

lemma extract_size_t_None: "extract_size_t is = (is', None) \<Longrightarrow> failbit is'"
  by (auto simp: extract_size_t_def Let_def split: if_splits list.splits)

lemma extract_size_t_Some:
  assumes "extract_size_t is = (is', Some j)"
  shows "\<not> failbit is' \<and> length (buf is') < length (buf is)"
proof -
  from assms obtain c cs where dw: "dropWhile isspace_c (buf is) = c # cs"
    by (auto simp: extract_size_t_def Let_def split: if_splits list.splits)
  define s where "s = (if c = CHR ''-'' \<or> c = CHR ''+'' then cs else c # cs)"
  from assms dw have nonempty: "takeWhile isdigit_c s \<noteq> []"
    and is': "buf is' = dropWhile isdigit_c s" and nf: "\<not> failbit is'"
    by (auto simp: extract_size_t_def Let_def s_def split: if_splits)
  have "length (dropWhile isdigit_c s) < length s"
    using nonempty length_dropWhile_le [of isdigit_c "tl s"]
    by (cases s) (auto split: if_splits simp: less_Suc_eq_le)
  moreover have "length s \<le> length (c # cs)"
    by (simp add: s_def)
  moreover have "length (c # cs) \<le> length (buf is)"
    using dw length_dropWhile_le [of isspace_c "buf is"] by simp
  ultimately show ?thesis using is' nf by simp
qed

text \<open>The loop \<^verbatim>\<open>while (is) { TYPE j; if (is >> j) out.push_back(j); }\<close>.\<close>

function parse_loop :: "istringstream \<Rightarrow> nat list \<Rightarrow> nat list" where
  "parse_loop is out =
     (if failbit is then out
      else (case extract_size_t is of
              (is', Some j) \<Rightarrow> parse_loop is' (out @ [j])
            | (is', None) \<Rightarrow> parse_loop is' out))"
  by pat_completeness auto
termination
  apply (relation "measure (\<lambda>(is, out). if failbit is then 0 else Suc (length (buf is)))")
    apply simp
   apply (auto dest: extract_size_t_Some extract_size_t_None sym)
  done

declare parse_loop.simps [simp del]

lemma parse_loop_failed: "failbit is \<Longrightarrow> parse_loop is out = out"
  by (subst parse_loop.simps) simp

lemma parse_loop_Some:
  "\<not> failbit is \<Longrightarrow> extract_size_t is = (is', Some j) \<Longrightarrow>
     parse_loop is out = parse_loop is' (out @ [j])"
  by (subst parse_loop.simps) simp

lemma parse_loop_None:
  "extract_size_t is = (is', None) \<Longrightarrow> parse_loop is out = out"
  by (subst parse_loop.simps)
     (simp add: parse_loop_failed extract_size_t_None)

text \<open>
  The whole function: \<open>out\<close> is the vector passed by reference, returned extended.
\<close>

definition dash_to_blank :: "char \<Rightarrow> char" where
  "dash_to_blank c = (if c = CHR ''-'' then CHR '' '' else c)"

definition ParseDashSeparatedString :: "string \<Rightarrow> nat list \<Rightarrow> nat list" where
  "ParseDashSeparatedString str out =
     (let widths = map dash_to_blank str
      in parse_loop \<lparr>buf = widths, failbit = False, eofbit = False\<rparr> out)"

section \<open>Commands, failures and responses\<close>

text \<open>
  A command handler either returns normally, having appended items to the response with
  \<^verbatim>\<open>cmd << ...\<close>, or throws \<^verbatim>\<open>HtpFailure\<close>. One further outcome is behaviour the
  language leaves undefined and that ends the handler: dereferencing a null pointer. Every
  handler is modelled as a function from the state and the command to the state
  afterwards and the outcome, so that what a failing call leaves behind is visible.
\<close>

datatype error = HtpFailure string | NullPointerDereference

datatype HexColor = BLACK | WHITE | EMPTY

datatype HexPoint = INVALID_POINT | RESIGN | SWAP_PIECES | CELL nat

text \<open>One item per \<^verbatim>\<open><<\<close> insertion, tagged with the type of the inserted value.\<close>

datatype out_item =
    OChar char
  | OStr string
  | OBool bool
  | OSize nat
  | OInt int
  | ODouble real
  | OPoint HexPoint

text \<open>
  The command object: its arguments, and the results of its typed accessors
  \<^verbatim>\<open>Arg<bool>(i)\<close>, \<^verbatim>\<open>Arg<float>(i)\<close>, \<^verbatim>\<open>ArgMin<std::size_t>(i, min)\<close> and
  \<^verbatim>\<open>ArgMin<int>(i, min)\<close>, each of which returns a value or throws.
\<close>

record HtpCommand =
  Args :: "string list"
  ArgBool :: "nat \<Rightarrow> error + bool"
  ArgFloat :: "nat \<Rightarrow> error + real"
  ArgMinSize :: "nat \<Rightarrow> nat \<Rightarrow> error + nat"
  ArgMinInt :: "nat \<Rightarrow> int \<Rightarrow> error + int"

definition NuArg :: "HtpCommand \<Rightarrow> nat" where
  "NuArg cmd = length (Args cmd)"

definition Arg :: "HtpCommand \<Rightarrow> nat \<Rightarrow> string" where
  "Arg cmd i = Args cmd ! i"

definition newline :: char where
  "newline = CHR 0x0A"

text \<open>
  \<^verbatim>\<open>setter(cmd.Arg<bool>(1))\<close>: the accessor may throw before the setter runs.
\<close>

definition set_from :: "(error + 'a) \<Rightarrow> ('a \<Rightarrow> 's \<Rightarrow> 's) \<Rightarrow> 's \<Rightarrow> 's \<times> (error + out_item list)" where
  "set_from parsed setter s =
     (case parsed of Inl err \<Rightarrow> (s, Inl err) | Inr v \<Rightarrow> (setter v s, Inr []))"

section \<open>The board environment (HexEnvironment.cpp)\<close>

record ICEngine =
  FindAllPatternSuperiors :: bool
  FindAllPatternKillers :: bool
  FindPresimplicialPairs :: bool
  FindThreeSidedDeadRegions :: bool
  IterativeDeadRegions :: bool
  UseCapture :: bool
  FindReversible :: bool
  UseSReversibleAsReversible :: bool

record VCBuilderParam =
  and_over_edge :: bool
  use_patterns :: bool
  use_non_edge_patterns :: bool
  incremental_builds :: bool
  limit_fulls :: bool
  limit_or :: bool

record StoneBoard =
  Width :: int
  Height :: int
  stones :: "(HexPoint \<times> HexColor) list"

text \<open>
  A \<^verbatim>\<open>HexBoard\<close>: its position, the four toggles read and written by
  \<^verbatim>\<open>UseVCs()\<close>/\<^verbatim>\<open>SetUseVCs()\<close> and their siblings, and the connection and
  inferior-cell data built for the position, of a type \<open>'v\<close> left open.
\<close>

record 'v HexBoard =
  GetPosition :: StoneBoard
  UseVCs :: bool
  UseICE :: bool
  UseDecompositions :: bool
  BackupIceInfo :: bool
  built :: 'v

record 'v HexEnvironment =
  ice :: ICEngine
  buildParam :: VCBuilderParam
  brd :: "'v HexBoard"

text \<open>
  Functions of \<^verbatim>\<open>HexBoard\<close> and \<^verbatim>\<open>StoneBoard\<close> that the environment calls and whose
  bodies are in other files: the constructor \<^verbatim>\<open>HexBoard(width, height, ice, buildParam)\<close>,
  \<^verbatim>\<open>StoneBoard::StartNewGame()\<close> and \<^verbatim>\<open>StoneBoard::SetPosition(board)\<close>. They are
  parameters of the model.
\<close>

record 'v board_ops =
  new_HexBoard :: "int \<Rightarrow> int \<Rightarrow> ICEngine \<Rightarrow> VCBuilderParam \<Rightarrow> 'v HexBoard"
  StartNewGame :: "StoneBoard \<Rightarrow> StoneBoard"
  SetPosition :: "StoneBoard \<Rightarrow> StoneBoard \<Rightarrow> StoneBoard"

definition HexEnvironment_new ::
  "'v board_ops \<Rightarrow> ICEngine \<Rightarrow> VCBuilderParam \<Rightarrow> int \<Rightarrow> int \<Rightarrow> 'v HexEnvironment" where
  "HexEnvironment_new B i p width height =
     \<lparr>ice = i, buildParam = p, brd = new_HexBoard B width height i p\<rparr>"

definition NewGame :: "'v board_ops \<Rightarrow> 'v HexEnvironment \<Rightarrow> int \<Rightarrow> int \<Rightarrow> 'v HexEnvironment" where
  "NewGame B env width height =
     (let env1 =
        (if Width (GetPosition (brd env)) \<noteq> width \<or> Height (GetPosition (brd env)) \<noteq> height
         then
           (let use_vcs = UseVCs (brd env);
                use_ice = UseICE (brd env);
                use_dec = UseDecompositions (brd env);
                backup = BackupIceInfo (brd env);
                b0 = new_HexBoard B width height (ice env) (buildParam env);
                b1 = b0\<lparr>UseVCs := use_vcs\<rparr>;
                b2 = b1\<lparr>UseICE := use_ice\<rparr>;
                b3 = b2\<lparr>UseDecompositions := use_dec\<rparr>;
                b4 = b3\<lparr>BackupIceInfo := backup\<rparr>
            in env\<lparr>brd := b4\<rparr>)
         else env)
      in env1\<lparr>brd := (brd env1)\<lparr>GetPosition := StartNewGame B (GetPosition (brd env1))\<rparr>\<rparr>)"

definition SyncBoard :: "'v board_ops \<Rightarrow> 'v HexEnvironment \<Rightarrow> StoneBoard \<Rightarrow> 'v HexEnvironment" where
  "SyncBoard B env board =
     env\<lparr>brd := (brd env)\<lparr>GetPosition := SetPosition B (GetPosition (brd env)) board\<rparr>\<rparr>"

subsection \<open>The parameter commands of the environment\<close>

definition ParamICE ::
  "'v HexEnvironment \<Rightarrow> HtpCommand \<Rightarrow> 'v HexEnvironment \<times> (error + out_item list)" where
  "ParamICE m_env cmd =
     (if NuArg cmd = 0 then
        (m_env, Inr
          [OChar newline,
           OStr ''[bool] find_all_pattern_superiors '',
           OBool (FindAllPatternSuperiors (ice m_env)), OChar newline,
           OStr ''[bool] find_all_pattern_killers '',
           OBool (FindAllPatternKillers (ice m_env)), OChar newline,
           OStr ''[bool] find_presimplicial_pairs '',
           OBool (FindPresimplicialPairs (ice m_env)), OChar newline,
           OStr ''[bool] find_three_sided_dead_regions '',
           OBool (FindThreeSidedDeadRegions (ice m_env)), OChar newline,
           OStr ''[bool] iterative_dead_regions '',
           OBool (IterativeDeadRegions (ice m_env)), OChar newline,
           OStr ''[bool] use_capture '',
           OBool (UseCapture (ice m_env)), OChar newline,
           OStr ''[bool] find_reversible '',
           OBool (FindReversible (ice m_env)), OChar newline,
           OStr ''[bool] use_s_reversible_as_reversible '',
           OBool (UseSReversibleAsReversible (ice m_env)), OChar newline])
      else if NuArg cmd = 2 then
        (let name = Arg cmd 0 in
         if name = ''find_all_pattern_superiors'' then
           set_from (ArgBool cmd 1)
             (\<lambda>v e. e\<lparr>ice := (ice e)\<lparr>FindAllPatternSuperiors := v\<rparr>\<rparr>) m_env
         else if name = ''find_all_pattern_killers'' then
           set_from (ArgBool cmd 1)
             (\<lambda>v e. e\<lparr>ice := (ice e)\<lparr>FindAllPatternKillers := v\<rparr>\<rparr>) m_env
         else if name = ''find_presimplicial_pairs'' then
           set_from (ArgBool cmd 1)
             (\<lambda>v e. e\<lparr>ice := (ice e)\<lparr>FindPresimplicialPairs := v\<rparr>\<rparr>) m_env
         else if name = ''find_three_sided_dead_regions'' then
           set_from (ArgBool cmd 1)
             (\<lambda>v e. e\<lparr>ice := (ice e)\<lparr>FindThreeSidedDeadRegions := v\<rparr>\<rparr>) m_env
         else if name = ''iterative_dead_regions'' then
           set_from (ArgBool cmd 1)
             (\<lambda>v e. e\<lparr>ice := (ice e)\<lparr>IterativeDeadRegions := v\<rparr>\<rparr>) m_env
         else if name = ''use_capture'' then
           set_from (ArgBool cmd 1)
             (\<lambda>v e. e\<lparr>ice := (ice e)\<lparr>UseCapture := v\<rparr>\<rparr>) m_env
         else if name = ''find_reversible'' then
           set_from (ArgBool cmd 1)
             (\<lambda>v e. e\<lparr>ice := (ice e)\<lparr>FindReversible := v\<rparr>\<rparr>) m_env
         else if name = ''use_s_reversible_as_reversible'' then
           set_from (ArgBool cmd 1)
             (\<lambda>v e. e\<lparr>ice := (ice e)\<lparr>UseSReversibleAsReversible := v\<rparr>\<rparr>) m_env
         else (m_env, Inl (HtpFailure (''Unknown parameter: '' @ name))))
      else (m_env, Inl (HtpFailure ''Expected 0 or 2 arguments'')))"

text \<open>
  Modelled from the spec: \<^verbatim>\<open>HexBoard::VCBuilderParameters()\<close>, whose body (and the board
  constructor that receives \<^verbatim>\<open>buildParam\<close>) is in a file of the repository that is not
  at hand. The specification's data model has the environment own the builder-tuning
  flags together with the toggles, as configuration that a new working copy does not
  reset. Accordingly the accessor yields a reference to the environment's own
  \<^verbatim>\<open>buildParam\<close>, the object handed to every board the environment constructs.
\<close>

definition VCBuilderParameters :: "'v HexEnvironment \<Rightarrow> VCBuilderParam" where
  "VCBuilderParameters env = buildParam env"

definition VCBuilderParameters_update ::
  "(VCBuilderParam \<Rightarrow> VCBuilderParam) \<Rightarrow> 'v HexEnvironment \<Rightarrow> 'v HexEnvironment" where
  "VCBuilderParameters_update f env = env\<lparr>buildParam := f (buildParam env)\<rparr>"

definition ParamVC ::
  "'v HexEnvironment \<Rightarrow> HtpCommand \<Rightarrow> 'v HexEnvironment \<times> (error + out_item list)" where
  "ParamVC m_env cmd =
     (let param = VCBuilderParameters m_env in
      if NuArg cmd = 0 then
        (m_env, Inr
          [OChar newline,
           OStr ''[bool] and_over_edge '', OBool (and_over_edge param), OChar newline,
           OStr ''[bool] use_patterns '', OBool (use_patterns param), OChar newline,
           OStr ''[bool] use_non_edge_patterns '',
           OBool (use_non_edge_patterns param), OChar newline,
           OStr ''[bool] incremental_builds '', OBool (incremental_builds param), OChar newline,
           OStr ''[bool] limit_fulls '', OBool (limit_fulls param), OChar newline,
           OStr ''[bool] limit_or '', OBool (limit_or param), OChar newline])
      else if NuArg cmd = 2 then
        (let name = Arg cmd 0 in
         if name = ''and_over_edge'' then
           set_from (ArgBool cmd 1)
             (\<lambda>v. VCBuilderParameters_update (\<lambda>p. p\<lparr>and_over_edge := v\<rparr>)) m_env
         else if name = ''use_patterns'' then
           set_from (ArgBool cmd 1)
             (\<lambda>v. VCBuilderParameters_update (\<lambda>p. p\<lparr>use_patterns := v\<rparr>)) m_env
         else if name = ''use_non_edge_patterns'' then
           set_from (ArgBool cmd 1)
             (\<lambda>v. VCBuilderParameters_update (\<lambda>p. p\<lparr>use_non_edge_patterns := v\<rparr>)) m_env
         else if name = ''incremental_builds'' then
           set_from (ArgBool cmd 1)
             (\<lambda>v. VCBuilderParameters_update (\<lambda>p. p\<lparr>incremental_builds := v\<rparr>)) m_env
         else if name = ''limit_fulls'' then
           set_from (ArgBool cmd 1)
             (\<lambda>v. VCBuilderParameters_update (\<lambda>p. p\<lparr>limit_fulls := v\<rparr>)) m_env
         else if name = ''limit_or'' then
           set_from (ArgBool cmd 1)
             (\<lambda>v. VCBuilderParameters_update (\<lambda>p. p\<lparr>limit_or := v\<rparr>)) m_env
         else (m_env, Inl (HtpFailure (''Unknown parameter: '' @ name))))
      else (m_env, Inl (HtpFailure ''Expected 0 or 2 arguments'')))"

definition ParamBoard ::
  "'v HexEnvironment \<Rightarrow> HtpCommand \<Rightarrow> 'v HexEnvironment \<times> (error + out_item list)" where
  "ParamBoard m_env cmd =
     (if NuArg cmd = 0 then
        (m_env, Inr
          [OChar newline,
           OStr ''[bool] backup_ice_info '', OBool (BackupIceInfo (brd m_env)), OChar newline,
           OStr ''[bool] use_decompositions '',
           OBool (UseDecompositions (brd m_env)), OChar newline,
           OStr ''[bool] use_ice '', OBool (UseICE (brd m_env)), OChar newline,
           OStr ''[bool] use_vcs '', OBool (UseVCs (brd m_env)), OChar newline])
      else if NuArg cmd = 2 then
        (let name = Arg cmd 0 in
         if name = ''backup_ice_info'' then
           set_from (ArgBool cmd 1)
             (\<lambda>v e. e\<lparr>brd := (brd e)\<lparr>BackupIceInfo := v\<rparr>\<rparr>) m_env
         else if name = ''use_decompositions'' then
           set_from (ArgBool cmd 1)
             (\<lambda>v e. e\<lparr>brd := (brd e)\<lparr>UseDecompositions := v\<rparr>\<rparr>) m_env
         else if name = ''use_ice'' then
           set_from (ArgBool cmd 1)
             (\<lambda>v e. e\<lparr>brd := (brd e)\<lparr>UseICE := v\<rparr>\<rparr>) m_env
         else if name = ''use_vcs'' then
           set_from (ArgBool cmd 1)
             (\<lambda>v e. e\<lparr>brd := (brd e)\<lparr>UseVCs := v\<rparr>\<rparr>) m_env
         else (m_env, Inl (HtpFailure (''Unknown parameter: '' @ name))))
      else (m_env, Inl (HtpFailure ''Expected 0 or 2 arguments'')))"

section \<open>The engine (WolveEngine.cpp)\<close>

record WolveSearch =
  SearchBackupIceInfo :: bool
  GuiFx :: bool
  PlyWidth :: "nat list"

record SgSearchHashData =
  Value :: int
  BestMove :: int
  IsExactValue :: bool
  IsOnlyLowerBound :: bool
  IsOnlyUpperBound :: bool
  Depth :: int

text \<open>
  Modelled from the spec: the transposition table \<^verbatim>\<open>SgSearchHashTable\<close>, declared in a
  file that is not at hand. The specification describes a table of fixed capacity, keyed
  by a position hash, each entry holding a value, a best move, a depth and a bound
  classification. \<^verbatim>\<open>MaxHash()\<close> is the capacity given to the constructor; a newly
  constructed table holds no entry.
\<close>

record SgSearchHashTable =
  MaxHash :: int
  entries :: "(nat \<times> SgSearchHashData) list"

definition SgSearchHashTable_new :: "int \<Rightarrow> SgSearchHashTable" where
  "SgSearchHashTable_new maxHash = \<lparr>MaxHash = maxHash, entries = []\<rparr>"

definition Lookup :: "SgSearchHashTable \<Rightarrow> nat \<Rightarrow> SgSearchHashData option" where
  "Lookup t h = map_of (entries t) h"

record WolvePlayer =
  Search :: WolveSearch
  SearchSingleton :: bool
  UseTimeManagement :: bool
  MaxTime :: real
  MaxDepth :: nat
  MinDepth :: nat
  HashTable :: "SgSearchHashTable option"

record Game =
  Board :: StoneBoard
  History :: "(HexColor \<times> HexPoint) list"

record HexState =
  Position :: StoneBoard
  ToPlay :: HexColor

record ('v, 's, 'p) WolveEngine =
  m_game :: Game
  m_pe :: "'v HexEnvironment"
  m_se :: "'v HexEnvironment"
  m_player :: WolvePlayer
  m_useParallelSolver :: bool
  m_dfpnSolver :: 's
  m_dfpnPositions :: 'p

text \<open>
  Functions the engine calls whose bodies are in other files; they are parameters of the
  model. The two searches receive references to engine members and may change them:
  \<^verbatim>\<open>PlayAndSolve::GenMove\<close> is given both boards, the player, the solver, its position
  cache and the game, \<^verbatim>\<open>WolvePlayer::GenMove\<close> the player itself and the synchronised
  board. \<open>is_opening_move\<close> and \<open>swap_heuristic\<close> are the two ingredients of the swap
  check named by the specification. \<open>undefined_shl a bits\<close> stands for what the compiled
  program computes for \<^verbatim>\<open>a << bits\<close> where the language leaves the shift undefined.
\<close>

record ('v, 's, 'p) engine_ops =
  board_ops :: "'v board_ops"
  is_opening_move :: "Game \<Rightarrow> bool"
  swap_heuristic :: "Game \<Rightarrow> HexColor \<Rightarrow> bool"
  TimeRemaining :: "Game \<Rightarrow> HexColor \<Rightarrow> real"
  WolveTimeControl_TimeForMove :: "Game \<Rightarrow> real \<Rightarrow> real"
  PlayAndSolve_GenMove ::
    "('v, 's, 'p) WolveEngine \<Rightarrow> HexState \<Rightarrow> real \<Rightarrow> HexPoint \<times> ('v, 's, 'p) WolveEngine"
  WolvePlayer_GenMove ::
    "WolvePlayer \<Rightarrow> HexState \<Rightarrow> Game \<Rightarrow> 'v HexBoard \<Rightarrow> real
       \<Rightarrow> HexPoint \<times> WolvePlayer \<times> 'v HexBoard"
  WhoseTurn :: "StoneBoard \<Rightarrow> HexColor"
  Hash :: "HexState \<Rightarrow> nat"
  ExtractPVFromHashTable :: "HexState \<Rightarrow> SgSearchHashTable \<Rightarrow> HexPoint list"
  PrintScores :: "HexState \<Rightarrow> SgSearchHashTable \<Rightarrow> string"
  MoveString :: "int \<Rightarrow> string"
  PrintVector :: "nat list \<Rightarrow> string"
  undefined_shl :: "int \<Rightarrow> int \<Rightarrow> int"

subsection \<open>Move generation\<close>

text \<open>
  Modelled from the spec: \<^verbatim>\<open>SwapCheck::PlaySwap\<close>, whose body is in a file that is not at
  hand. The specification: the check runs only when the move requested is the first move
  of the game, where it evaluates a heuristic to decide whether the side to move should
  swap; it is skipped for every other move.
\<close>

definition PlaySwap :: "(Game \<Rightarrow> bool) \<Rightarrow> (Game \<Rightarrow> HexColor \<Rightarrow> bool) \<Rightarrow> Game \<Rightarrow> HexColor \<Rightarrow> bool" where
  "PlaySwap opening favours_swap game color =
     (if opening game then favours_swap game color else False)"

definition TimeForMove :: "('v, 's, 'p) engine_ops \<Rightarrow> ('v, 's, 'p) WolveEngine \<Rightarrow> HexColor \<Rightarrow> real" where
  "TimeForMove X e c =
     (if UseTimeManagement (m_player e)
      then WolveTimeControl_TimeForMove X (m_game e) (TimeRemaining X (m_game e) c)
      else MaxTime (m_player e))"

text \<open>What \<^verbatim>\<open>GenMove\<close> does once the swap check has declined (lines 86 to 96).\<close>

definition GenMove_search ::
  "('v, 's, 'p) engine_ops \<Rightarrow> ('v, 's, 'p) WolveEngine \<Rightarrow> HexColor
     \<Rightarrow> HexPoint \<times> ('v, 's, 'p) WolveEngine" where
  "GenMove_search X e color =
     (let state = \<lparr>Position = Board (m_game e), ToPlay = color\<rparr>;
          maxTime = TimeForMove X e color
      in if m_useParallelSolver e then PlayAndSolve_GenMove X e state maxTime
         else
           (let pe = SyncBoard (board_ops X) (m_pe e) (Board (m_game e));
                r = WolvePlayer_GenMove X (m_player e) state (m_game e) (brd pe) maxTime
            in (fst r, e\<lparr>m_player := fst (snd r), m_pe := pe\<lparr>brd := snd (snd r)\<rparr>\<rparr>)))"

definition GenMove ::
  "('v, 's, 'p) engine_ops \<Rightarrow> ('v, 's, 'p) WolveEngine \<Rightarrow> HexColor \<Rightarrow> bool
     \<Rightarrow> HexPoint \<times> ('v, 's, 'p) WolveEngine" where
  "GenMove X e color useGameClock =
     (if PlaySwap (is_opening_move X) (swap_heuristic X) (m_game e) color
      then (SWAP_PIECES, e)
      else GenMove_search X e color)"

subsection \<open>The parameter command of the engine\<close>

text \<open>
  \<^verbatim>\<open>a << bits\<close> on \<^verbatim>\<open>int\<close> (32 bits). The language defines it when the shift count is
  in range and the result is representable, for \<^verbatim>\<open>1 << bits\<close> that is for
  \<open>0 \<le> bits \<le> 30\<close>. The source does not test the count, so the handler goes on in the
  other case too, with whatever \<^verbatim>\<open>int\<close> the compiled program computes there: a parameter
  of the model, brought into the range of \<^verbatim>\<open>int\<close>.
\<close>

definition INT_MAX :: int where
  "INT_MAX = 2 ^ 31 - 1"

definition to_int32 :: "int \<Rightarrow> int" where
  "to_int32 v = (v + 2 ^ 31) mod 2 ^ 32 - 2 ^ 31"

definition shl_int :: "(int \<Rightarrow> int \<Rightarrow> int) \<Rightarrow> int \<Rightarrow> int \<Rightarrow> int" where
  "shl_int undefined_case a bits =
     (if 0 \<le> bits \<and> bits < 32 \<and> 0 \<le> a \<and> a * 2 ^ nat bits \<le> INT_MAX
      then a * 2 ^ nat bits
      else to_int32 (undefined_case a bits))"

definition SetSearch :: "(WolveSearch \<Rightarrow> WolveSearch) \<Rightarrow> ('v, 's, 'p) WolveEngine \<Rightarrow> ('v, 's, 'p) WolveEngine" where
  "SetSearch f e = e\<lparr>m_player := (m_player e)\<lparr>Search := f (Search (m_player e))\<rparr>\<rparr>"

definition SetHashTable ::
  "SgSearchHashTable option \<Rightarrow> ('v, 's, 'p) WolveEngine \<Rightarrow> ('v, 's, 'p) WolveEngine" where
  "SetHashTable t e = e\<lparr>m_player := (m_player e)\<lparr>HashTable := t\<rparr>\<rparr>"

definition CmdParam ::
  "('v, 's, 'p) engine_ops \<Rightarrow> ('v, 's, 'p) WolveEngine \<Rightarrow> HtpCommand
     \<Rightarrow> ('v, 's, 'p) WolveEngine \<times> (error + out_item list)" where
  "CmdParam X e cmd =
     (let search = Search (m_player e) in
      if NuArg cmd = 0 then
        (e, Inr
          [OChar newline,
           OStr ''[bool] backup_ice_info '', OBool (SearchBackupIceInfo search), OChar newline,
           OStr ''[bool] use_guifx '', OBool (GuiFx search), OChar newline,
           OStr ''[bool] search_singleton '', OBool (SearchSingleton (m_player e)), OChar newline,
           OStr ''[bool] use_parallel_solver '', OBool (m_useParallelSolver e), OChar newline,
           OStr ''[bool] use_time_management '',
           OBool (UseTimeManagement (m_player e)), OChar newline,
           OStr ''[string] ply_width '', OStr (PrintVector X (PlyWidth search)), OChar newline,
           OStr ''[string] max_depth '', OSize (MaxDepth (m_player e)), OChar newline,
           OStr ''[string] max_time '', ODouble (MaxTime (m_player e)), OChar newline,
           OStr ''[string] min_depth '', OSize (MinDepth (m_player e)), OChar newline,
           OStr ''[string] tt_bits '',
           ODouble (case HashTable (m_player e) of
                      Some t \<Rightarrow> log 2 (real_of_int (MaxHash t))
                    | None \<Rightarrow> 0)])
      else if NuArg cmd = 2 then
        (let name = Arg cmd 0 in
         if name = ''backup_ice_info'' then
           set_from (ArgBool cmd 1) (\<lambda>v. SetSearch (\<lambda>s. s\<lparr>SearchBackupIceInfo := v\<rparr>)) e
         else if name = ''max_time'' then
           set_from (ArgFloat cmd 1) (\<lambda>v e. e\<lparr>m_player := (m_player e)\<lparr>MaxTime := v\<rparr>\<rparr>) e
         else if name = ''ply_width'' then
           (let plywidth = ParseDashSeparatedString (Arg cmd 1) []
            in (SetSearch (\<lambda>s. s\<lparr>PlyWidth := plywidth\<rparr>) e, Inr []))
         else if name = ''max_depth'' then
           set_from (ArgMinSize cmd 1 1) (\<lambda>v e. e\<lparr>m_player := (m_player e)\<lparr>MaxDepth := v\<rparr>\<rparr>) e
         else if name = ''min_depth'' then
           set_from (ArgMinSize cmd 1 1) (\<lambda>v e. e\<lparr>m_player := (m_player e)\<lparr>MinDepth := v\<rparr>\<rparr>) e
         else if name = ''use_guifx'' then
           set_from (ArgBool cmd 1) (\<lambda>v. SetSearch (\<lambda>s. s\<lparr>GuiFx := v\<rparr>)) e
         else if name = ''search_singleton'' then
           set_from (ArgBool cmd 1)
             (\<lambda>v e. e\<lparr>m_player := (m_player e)\<lparr>SearchSingleton := v\<rparr>\<rparr>) e
         else if name = ''tt_bits'' then
           (case ArgMinInt cmd 1 0 of
              Inl err \<Rightarrow> (e, Inl err)
            | Inr bits \<Rightarrow>
                if bits = 0 then (SetHashTable None e, Inr [])
                else (SetHashTable
                        (Some (SgSearchHashTable_new (shl_int (undefined_shl X) 1 bits))) e,
                      Inr []))
         else if name = ''use_parallel_solver'' then
           set_from (ArgBool cmd 1) (\<lambda>v e. e\<lparr>m_useParallelSolver := v\<rparr>) e
         else if name = ''use_time_management'' then
           set_from (ArgBool cmd 1)
             (\<lambda>v e. e\<lparr>m_player := (m_player e)\<lparr>UseTimeManagement := v\<rparr>\<rparr>) e
         else (e, Inl (HtpFailure (''Unknown parameter: '' @ name))))
      else (e, Inl (HtpFailure ''Expected 0 or 2 arguments'')))"

subsection \<open>Queries against the transposition table\<close>

definition CmdGetPV ::
  "('v, 's, 'p) engine_ops \<Rightarrow> ('v, 's, 'p) WolveEngine \<Rightarrow> HtpCommand
     \<Rightarrow> ('v, 's, 'p) WolveEngine \<times> (error + out_item list)" where
  "CmdGetPV X e cmd =
     (let state = \<lparr>Position = Board (m_game e), ToPlay = WhoseTurn X (Board (m_game e))\<rparr>;
          hashTable = HashTable (m_player e)
      in case hashTable of
           None \<Rightarrow> (e, Inl NullPointerDereference)
         | Some t \<Rightarrow>
             (let seq = ExtractPVFromHashTable X state t
              in (e, Inr (concat (map (\<lambda>p. [OPoint p, OChar CHR '' '']) seq)))))"

definition CmdScores ::
  "('v, 's, 'p) engine_ops \<Rightarrow> ('v, 's, 'p) WolveEngine \<Rightarrow> HtpCommand
     \<Rightarrow> ('v, 's, 'p) WolveEngine \<times> (error + out_item list)" where
  "CmdScores X e cmd =
     (let state = \<lparr>Position = Board (m_game e), ToPlay = WhoseTurn X (Board (m_game e))\<rparr>;
          hashTable = HashTable (m_player e)
      in case hashTable of
           None \<Rightarrow> (e, Inl (HtpFailure ''No hashtable!''))
         | Some t \<Rightarrow> (e, Inr [OStr (PrintScores X state t)]))"

definition CmdData ::
  "('v, 's, 'p) engine_ops \<Rightarrow> ('v, 's, 'p) WolveEngine \<Rightarrow> HtpCommand
     \<Rightarrow> ('v, 's, 'p) WolveEngine \<times> (error + out_item list)" where
  "CmdData X e cmd =
     (let hashTable = HashTable (m_player e)
      in case hashTable of
           None \<Rightarrow> (e, Inl (HtpFailure ''No hashtable!''))
         | Some t \<Rightarrow>
             (let state = \<lparr>Position = Board (m_game e),
                            ToPlay = WhoseTurn X (Board (m_game e))\<rparr>
              in case Lookup t (Hash X state) of
                   Some data \<Rightarrow>
                     (e, Inr
                       [OStr ''[score='', OInt (Value data),
                        OStr '' bestMove='', OStr (MoveString X (BestMove data)),
                        OStr '' isExact='', OBool (IsExactValue data),
                        OStr '' isLower='', OBool (IsOnlyLowerBound data),
                        OStr '' isUpper='', OBool (IsOnlyUpperBound data),
                        OStr '' depth='', OInt (Depth data),
                        OChar CHR '']''])
                 | None \<Rightarrow> (e, Inr [])))"

section \<open>Reading a response\<close>

text \<open>
  The reply to a query with no argument lists each parameter as a label, the string
  literal that the source inserts, followed by the value. \<open>shown lbl out\<close> is the item
  inserted right after the label \<open>lbl\<close>; values are never read as labels.
\<close>

fun shown :: "string \<Rightarrow> out_item list \<Rightarrow> out_item option" where
  "shown lbl (OStr s # v # rest) = (if s = lbl then Some v else shown lbl rest)"
| "shown lbl (x # rest) = shown lbl rest"
| "shown lbl [] = None"

definition response :: "'s \<times> (error + out_item list) \<Rightarrow> out_item list" where
  "response r = (case snd r of Inr out \<Rightarrow> out | Inl err \<Rightarrow> [])"

definition bool_label :: "string \<Rightarrow> string" where
  "bool_label name = ''[bool] '' @ name @ '' ''"

text \<open>
  The value a two-argument command sets, as an item of the reply: what the typed accessor
  that the source applies to the second argument returns. For the engine's command this
  covers the parameters other than \<^verbatim>\<open>ply_width\<close>, whose value is a sequence of tokens;
  the engine's query prints the number of table bits as a \<^verbatim>\<open>double\<close>.
  \<open>tt_bits_in_range\<close> says that a number of table bits is one for which \<^verbatim>\<open>1 << bits\<close>
  is defined.
\<close>

definition bool_value :: "HtpCommand \<Rightarrow> out_item option" where
  "bool_value cmd = (case ArgBool cmd 1 of Inr v \<Rightarrow> Some (OBool v) | Inl err \<Rightarrow> None)"

definition param_wolve_label :: "string \<Rightarrow> string" where
  "param_wolve_label name =
     (if name \<in> set [''ply_width'', ''max_depth'', ''max_time'', ''min_depth'', ''tt_bits'']
      then ''[string] '' @ name @ '' ''
      else ''[bool] '' @ name @ '' '')"

definition param_wolve_value :: "HtpCommand \<Rightarrow> out_item option" where
  "param_wolve_value cmd =
     (let name = Arg cmd 0 in
      if name = ''max_time''
        then (case ArgFloat cmd 1 of Inr v \<Rightarrow> Some (ODouble v) | Inl err \<Rightarrow> None)
      else if name = ''max_depth'' \<or> name = ''min_depth''
        then (case ArgMinSize cmd 1 1 of Inr v \<Rightarrow> Some (OSize v) | Inl err \<Rightarrow> None)
      else if name = ''tt_bits''
        then (case ArgMinInt cmd 1 0 of Inr v \<Rightarrow> Some (ODouble (real_of_int v)) | Inl err \<Rightarrow> None)
      else bool_value cmd)"

definition tt_bits_in_range :: "HtpCommand \<Rightarrow> bool" where
  "tt_bits_in_range cmd =
     (case ArgMinInt cmd 1 0 of Inr bits \<Rightarrow> 0 \<le> bits \<and> bits \<le> 30 | Inl err \<Rightarrow> False)"

text \<open>
  The parameter names each command knows, and the two kinds of usage error: an argument
  count other than 0 or 2, and two arguments of which the first is no known name.
\<close>

definition param_wolve_names :: "string list" where
  "param_wolve_names =
     [''backup_ice_info'', ''max_time'', ''ply_width'', ''max_depth'', ''min_depth'',
      ''use_guifx'', ''search_singleton'', ''tt_bits'', ''use_parallel_solver'',
      ''use_time_management'']"

definition param_ice_names :: "string list" where
  "param_ice_names =
     [''find_all_pattern_superiors'', ''find_all_pattern_killers'',
      ''find_presimplicial_pairs'', ''find_three_sided_dead_regions'',
      ''iterative_dead_regions'', ''use_capture'', ''find_reversible'',
      ''use_s_reversible_as_reversible'']"

definition param_vc_names :: "string list" where
  "param_vc_names =
     [''and_over_edge'', ''use_patterns'', ''use_non_edge_patterns'', ''incremental_builds'',
      ''limit_fulls'', ''limit_or'']"

definition param_board_names :: "string list" where
  "param_board_names = [''backup_ice_info'', ''use_decompositions'', ''use_ice'', ''use_vcs'']"

definition usage_error :: "string list \<Rightarrow> HtpCommand \<Rightarrow> bool" where
  "usage_error names cmd =
     (if NuArg cmd = 0 then False
      else if NuArg cmd = 2 then Arg cmd 0 \<notin> set names
      else True)"

definition usage_failure :: "HtpCommand \<Rightarrow> error" where
  "usage_failure cmd =
     (if NuArg cmd = 2 then HtpFailure (''Unknown parameter: '' @ Arg cmd 0)
      else HtpFailure ''Expected 0 or 2 arguments'')"

section \<open>Sample states and commands\<close>

text \<open>
  Concrete inputs at which the theorems below are exercised. The sample board operations
  build an empty board with all toggles on, as a fresh \<^verbatim>\<open>HexBoard\<close> has them;
  \<open>StartNewGame\<close> removes the stones. The sample for an undefined shift is what the
  shift instruction of a common processor does: it uses the count modulo 32 and keeps the
  low 32 bits.
\<close>

definition board_ops0 :: "nat board_ops" where
  "board_ops0 =
     \<lparr>new_HexBoard = (\<lambda>w h i p.
          \<lparr>GetPosition = \<lparr>Width = w, Height = h, stones = []\<rparr>,
           UseVCs = True, UseICE = True, UseDecompositions = True, BackupIceInfo = True,
           built = 0\<rparr>),
      StartNewGame = (\<lambda>p. p\<lparr>stones := []\<rparr>),
      SetPosition = (\<lambda>p b. p\<lparr>stones := stones b\<rparr>)\<rparr>"

definition ice0 :: ICEngine where
  "ice0 = \<lparr>FindAllPatternSuperiors = False, FindAllPatternKillers = True,
           FindPresimplicialPairs = True, FindThreeSidedDeadRegions = False,
           IterativeDeadRegions = False, UseCapture = True, FindReversible = False,
           UseSReversibleAsReversible = False\<rparr>"

definition param0 :: VCBuilderParam where
  "param0 = \<lparr>and_over_edge = False, use_patterns = True, use_non_edge_patterns = True,
             incremental_builds = True, limit_fulls = True, limit_or = True\<rparr>"

definition env0 :: "nat HexEnvironment" where
  "env0 =
     \<lparr>ice = ice0, buildParam = param0,
      brd = \<lparr>GetPosition = \<lparr>Width = 5, Height = 5, stones = [(CELL 12, BLACK)]\<rparr>,
             UseVCs = False, UseICE = True, UseDecompositions = False, BackupIceInfo = True,
             built = 7\<rparr>\<rparr>"

definition player0 :: WolvePlayer where
  "player0 =
     \<lparr>Search = \<lparr>SearchBackupIceInfo = True, GuiFx = False, PlyWidth = [20, 20, 20, 20]\<rparr>,
      SearchSingleton = False, UseTimeManagement = False, MaxTime = 10,
      MaxDepth = 4, MinDepth = 1,
      HashTable = Some \<lparr>MaxHash = 2 ^ 20, entries = [(5, \<lparr>Value = 3, BestMove = 17,
        IsExactValue = True, IsOnlyLowerBound = False, IsOnlyUpperBound = False, Depth = 2\<rparr>)]\<rparr>\<rparr>"

definition game0 :: Game where
  "game0 = \<lparr>Board = \<lparr>Width = 5, Height = 5, stones = [(CELL 12, BLACK)]\<rparr>,
            History = [(BLACK, CELL 12)]\<rparr>"

definition engine0 :: "(nat, unit, unit) WolveEngine" where
  "engine0 = \<lparr>m_game = game0, m_pe = env0, m_se = env0, m_player = player0,
              m_useParallelSolver = False, m_dfpnSolver = (), m_dfpnPositions = ()\<rparr>"

fun show_nat :: "nat \<Rightarrow> string" where
  "show_nat n =
     (if n < 10 then [''0123456789'' ! n]
      else show_nat (n div 10) @ [''0123456789'' ! (n mod 10)])"

declare show_nat.simps [simp del]

definition join_blank :: "nat list \<Rightarrow> string" where
  "join_blank v = concat (map (\<lambda>n. show_nat n @ '' '') v)"

definition engine_ops0 :: "(nat, unit, unit) engine_ops" where
  "engine_ops0 =
     \<lparr>board_ops = board_ops0,
      is_opening_move = (\<lambda>g. length (History g) = 1),
      swap_heuristic = (\<lambda>g c. c = WHITE),
      TimeRemaining = (\<lambda>g c. 60),
      WolveTimeControl_TimeForMove = (\<lambda>g t. t / 10),
      PlayAndSolve_GenMove = (\<lambda>e s t. (CELL 1, e)),
      WolvePlayer_GenMove = (\<lambda>p s g b t. (CELL 2, p, b)),
      WhoseTurn = (\<lambda>b. WHITE),
      Hash = (\<lambda>s. 5),
      ExtractPVFromHashTable = (\<lambda>s t. [CELL 17]),
      PrintScores = (\<lambda>s t. ''scores''),
      MoveString = (\<lambda>m. ''c4''),
      PrintVector = join_blank,
      undefined_shl = (\<lambda>a bits. a * 2 ^ (nat bits mod 32))\<rparr>"

definition query_cmd :: HtpCommand where
  "query_cmd = \<lparr>Args = [], ArgBool = (\<lambda>i. Inl (HtpFailure ''missing argument'')),
      ArgFloat = (\<lambda>i. Inl (HtpFailure ''missing argument'')),
      ArgMinSize = (\<lambda>i m. Inl (HtpFailure ''missing argument'')),
      ArgMinInt = (\<lambda>i m. Inl (HtpFailure ''missing argument''))\<rparr>"

definition set_bool_cmd :: "string \<Rightarrow> string \<Rightarrow> bool \<Rightarrow> HtpCommand" where
  "set_bool_cmd name arg v = \<lparr>Args = [name, arg],
      ArgBool = (\<lambda>i. if i = 1 then Inr v else Inl (HtpFailure ''not a bool'')),
      ArgFloat = (\<lambda>i. Inl (HtpFailure ''not a float'')),
      ArgMinSize = (\<lambda>i m. Inl (HtpFailure ''not a size'')),
      ArgMinInt = (\<lambda>i m. Inl (HtpFailure ''not an int''))\<rparr>"

definition tt_bits_cmd :: "int \<Rightarrow> HtpCommand" where
  "tt_bits_cmd n = \<lparr>Args = [''tt_bits'', ''value''],
      ArgBool = (\<lambda>i. Inl (HtpFailure ''not a bool'')),
      ArgFloat = (\<lambda>i. Inl (HtpFailure ''not a float'')),
      ArgMinSize = (\<lambda>i m. Inl (HtpFailure ''not a size'')),
      ArgMinInt = (\<lambda>i m. if i = 1 \<and> m \<le> n then Inr n else Inl (HtpFailure ''not an int''))\<rparr>"

definition ply_width_cmd :: "string \<Rightarrow> HtpCommand" where
  "ply_width_cmd arg = \<lparr>Args = [''ply_width'', arg],
      ArgBool = (\<lambda>i. Inl (HtpFailure ''not a bool'')),
      ArgFloat = (\<lambda>i. Inl (HtpFailure ''not a float'')),
      ArgMinSize = (\<lambda>i m. Inl (HtpFailure ''not a size'')),
      ArgMinInt = (\<lambda>i m. Inl (HtpFailure ''not an int''))\<rparr>"

definition one_arg_cmd :: HtpCommand where
  "one_arg_cmd = \<lparr>Args = [''use_vcs''],
      ArgBool = (\<lambda>i. Inl (HtpFailure ''missing argument'')),
      ArgFloat = (\<lambda>i. Inl (HtpFailure ''missing argument'')),
      ArgMinSize = (\<lambda>i m. Inl (HtpFailure ''missing argument'')),
      ArgMinInt = (\<lambda>i m. Inl (HtpFailure ''missing argument''))\<rparr>"

section \<open>Tokens of a ply-width string\<close>

text \<open>
  A well-formed token is a non-empty run of digits whose value fits \<^verbatim>\<open>std::size_t\<close>. A
  malformed token is recognised by its first character, which is neither a digit, a sign,
  white space nor the separator.
\<close>

definition wellformed_token :: "string \<Rightarrow> bool" where
  "wellformed_token t = (t \<noteq> [] \<and> list_all isdigit_c t \<and> dec_value t \<le> SIZE_MAX)"

definition malformed_start :: "string \<Rightarrow> bool" where
  "malformed_start b =
     (case b of [] \<Rightarrow> False
      | c # cs \<Rightarrow> \<not> isdigit_c c \<and> \<not> isspace_c c \<and> c \<noteq> CHR ''-'' \<and> c \<noteq> CHR ''+'')"

text \<open>Tokens joined by single dashes, as in \<^verbatim>\<open>"1-2-3"\<close>.\<close>

fun join_dash :: "string list \<Rightarrow> string" where
  "join_dash [] = []"
| "join_dash [t] = t"
| "join_dash (t # u # ts) = t @ ''-'' @ join_dash (u # ts)"

section \<open>Properties of the ply-width parser\<close>

lemmas parser_eval =
  extract_size_t_def Let_def isspace_c_def isdigit_c_def dec_value_def digit_val_def
  SIZE_MAX_def dash_to_blank_def

lemma parse_loop_eval:
  "parse_loop \<lparr>buf = b, failbit = False, eofbit = e\<rparr> out =
     (case extract_size_t \<lparr>buf = b, failbit = False, eofbit = e\<rparr> of
        (is', Some j) \<Rightarrow> parse_loop is' (out @ [j])
      | (is', None) \<Rightarrow> out)"
  by (auto split: prod.splits option.splits simp: parse_loop_Some parse_loop_None)

lemma isdigit_not_space: "isdigit_c c \<Longrightarrow> \<not> isspace_c c"
  by (auto simp: isdigit_c_def isspace_c_def)

lemma isdigit_not_sign: "isdigit_c c \<Longrightarrow> c \<noteq> CHR ''-'' \<and> c \<noteq> CHR ''+''"
  by (auto simp: isdigit_c_def)

lemma extract_token:
  assumes sp: "list_all isspace_c sp" and wf: "wellformed_token t"
    and rest: "rest \<noteq> []" "\<not> isdigit_c (hd rest)"
  shows "extract_size_t \<lparr>buf = sp @ t @ rest, failbit = False, eofbit = False\<rparr>
           = (\<lparr>buf = rest, failbit = False, eofbit = False\<rparr>, Some (dec_value t))"
proof -
  from wf obtain d ds where t: "t = d # ds" and d: "isdigit_c d" and ds: "list_all isdigit_c ds"
    and v: "dec_value t \<le> SIZE_MAX"
    by (cases t) (auto simp: wellformed_token_def)
  from rest obtain r rs where r: "rest = r # rs" and nr: "\<not> isdigit_c r"
    by (cases rest) auto
  have dw: "dropWhile isspace_c (sp @ t @ rest) = d # (ds @ rest)"
    using sp d by (simp add: t dropWhile_append3 list_all_iff isdigit_not_space dropWhile_append2)
  have tw: "takeWhile isdigit_c (d # (ds @ rest)) = t"
    using d ds nr by (simp add: t r list_all_iff takeWhile_tail)
  have dr: "dropWhile isdigit_c (d # (ds @ rest)) = rest"
    using d ds nr by (simp add: r list_all_iff dropWhile_append2)
  show ?thesis
    using dw tw dr v isdigit_not_sign [OF d] rest t
    by (simp add: extract_size_t_def Let_def)
qed

lemma extract_malformed:
  assumes sp: "list_all isspace_c sp" and bad: "malformed_start b"
  shows "snd (extract_size_t \<lparr>buf = sp @ b @ rest, failbit = False, eofbit = False\<rparr>) = None"
proof -
  from bad obtain c cs where b: "b = c # cs" and c: "\<not> isdigit_c c" "\<not> isspace_c c"
    "c \<noteq> CHR ''-''" "c \<noteq> CHR ''+''"
    by (cases b) (auto simp: malformed_start_def)
  have dw: "dropWhile isspace_c (sp @ b @ rest) = c # (cs @ rest)"
    using sp c by (simp add: b list_all_iff dropWhile_append2)
  show ?thesis using dw c by (simp add: extract_size_t_def Let_def)
qed

lemma parse_loop_tokens:
  assumes "list_all isspace_c sp" "list_all wellformed_token ts" "malformed_start b"
  shows "parse_loop \<lparr>buf = sp @ concat (map (\<lambda>t. t @ '' '') ts) @ b @ rest,
                      failbit = False, eofbit = False\<rparr> out
           = out @ map dec_value ts"
  using assms
proof (induction ts arbitrary: sp out)
  case Nil
  obtain is' where "extract_size_t \<lparr>buf = sp @ b @ rest, failbit = False, eofbit = False\<rparr> = (is', None)"
    using extract_malformed [OF Nil(1) Nil(3), of rest] by (metis prod.collapse)
  then show ?case by (simp add: parse_loop_None)
next
  case (Cons t ts)
  let ?tail = "concat (map (\<lambda>t. t @ '' '') ts) @ b @ rest"
  have wf: "wellformed_token t" and wfs: "list_all wellformed_token ts"
    using Cons.prems(2) by simp_all
  have ex: "extract_size_t \<lparr>buf = sp @ t @ ('' '' @ ?tail), failbit = False, eofbit = False\<rparr>
          = (\<lparr>buf = '' '' @ ?tail, failbit = False, eofbit = False\<rparr>, Some (dec_value t))"
    by (rule extract_token [OF Cons.prems(1) wf]) (simp_all add: isdigit_c_def)
  have "parse_loop \<lparr>buf = sp @ t @ ('' '' @ ?tail), failbit = False, eofbit = False\<rparr> out
      = parse_loop \<lparr>buf = '' '' @ ?tail, failbit = False, eofbit = False\<rparr> (out @ [dec_value t])"
    by (rule parse_loop_Some [OF _ ex]) simp
  also have "\<dots> = (out @ [dec_value t]) @ map dec_value ts"
    by (rule Cons.IH [OF _ wfs Cons.prems(3)]) (simp add: isspace_c_def)
  finally show ?case by simp
qed

lemma dash_to_blank_digit: "isdigit_c c \<Longrightarrow> dash_to_blank c = c"
  using isdigit_not_sign [of c] by (simp add: dash_to_blank_def)

lemma dash_to_blank_token: "wellformed_token t \<Longrightarrow> map dash_to_blank t = t"
  by (rule map_idI) (simp add: wellformed_token_def list_all_iff dash_to_blank_digit)

lemma dash_to_blank_tokens:
  "list_all wellformed_token ts \<Longrightarrow>
     map dash_to_blank (concat (map (\<lambda>t. t @ ''-'') ts)) = concat (map (\<lambda>t. t @ '' '') ts)"
proof (induction ts)
  case Nil
  show ?case by simp
next
  case (Cons t ts)
  have "dash_to_blank CHR ''-'' = CHR '' ''" by (simp add: dash_to_blank_def)
  with Cons show ?case by (simp add: dash_to_blank_token)
qed

lemma malformed_start_map: "malformed_start b \<Longrightarrow> malformed_start (map dash_to_blank b)"
  by (cases b) (simp_all add: malformed_start_def dash_to_blank_def)

lemma ParseDashSeparatedString_prefix:
  assumes "list_all wellformed_token ts" "malformed_start b"
  shows "ParseDashSeparatedString (concat (map (\<lambda>t. t @ ''-'') ts) @ b @ rest) out
           = out @ map dec_value ts"
proof -
  have "parse_loop
          \<lparr>buf = [] @ concat (map (\<lambda>t. t @ '' '') ts) @ map dash_to_blank b
                     @ map dash_to_blank rest,
           failbit = False, eofbit = False\<rparr> out = out @ map dec_value ts"
    by (rule parse_loop_tokens [OF _ assms(1) malformed_start_map [OF assms(2)]]) simp
  then show ?thesis
    by (simp add: ParseDashSeparatedString_def dash_to_blank_tokens [OF assms(1)])
qed

lemma extract_last_token:
  assumes sp: "list_all isspace_c sp" and wf: "wellformed_token t"
  shows "extract_size_t \<lparr>buf = sp @ t, failbit = False, eofbit = False\<rparr>
           = (\<lparr>buf = [], failbit = False, eofbit = True\<rparr>, Some (dec_value t))"
proof -
  from wf obtain d ds where t: "t = d # ds" and d: "isdigit_c d" and ds: "list_all isdigit_c ds"
    and v: "dec_value t \<le> SIZE_MAX"
    by (cases t) (auto simp: wellformed_token_def)
  have dw: "dropWhile isspace_c (sp @ t) = d # ds"
    using sp d by (simp add: t list_all_iff isdigit_not_space dropWhile_append2)
  have tw: "takeWhile isdigit_c (d # ds) = t"
    using d ds by (simp add: t list_all_iff)
  have dr: "dropWhile isdigit_c (d # ds) = []"
    using d ds by (simp add: list_all_iff)
  show ?thesis
    using dw tw dr v isdigit_not_sign [OF d] t
    by (simp add: extract_size_t_def Let_def)
qed

lemma parse_loop_at_eof: "parse_loop \<lparr>buf = b, failbit = False, eofbit = True\<rparr> out = out"
  by (rule parse_loop_None [of _ "\<lparr>buf = b, failbit = True, eofbit = True\<rparr>"])
     (simp add: extract_size_t_def)

lemma dropWhile_all: "list_all P xs \<Longrightarrow> dropWhile P xs = []"
  by (simp add: list_all_iff)

lemma parse_loop_blank_only:
  assumes "list_all isspace_c sp"
  shows "parse_loop \<lparr>buf = sp, failbit = False, eofbit = False\<rparr> out = out"
proof -
  have "extract_size_t \<lparr>buf = sp, failbit = False, eofbit = False\<rparr>
               = (\<lparr>buf = [], failbit = True, eofbit = True\<rparr>, None)"
    by (simp add: extract_size_t_def dropWhile_all [OF assms])
  then show ?thesis by (rule parse_loop_None)
qed

lemma parse_loop_wellformed:
  assumes "list_all isspace_c sp" "list_all wellformed_token ts"
  shows "parse_loop \<lparr>buf = sp @ map dash_to_blank (join_dash ts),
                      failbit = False, eofbit = False\<rparr> out
           = out @ map dec_value ts"
  using assms
proof (induction ts arbitrary: sp out rule: join_dash.induct)
  case 1
  then show ?case by (simp add: parse_loop_blank_only)
next
  case (2 t)
  then have wf: "wellformed_token t" by simp
  have "parse_loop \<lparr>buf = sp @ t, failbit = False, eofbit = False\<rparr> out
      = parse_loop \<lparr>buf = [], failbit = False, eofbit = True\<rparr> (out @ [dec_value t])"
    by (rule parse_loop_Some [OF _ extract_last_token [OF "2.prems"(1) wf]]) simp
  then show ?case by (simp add: parse_loop_at_eof dash_to_blank_token [OF wf])
next
  case (3 t u ts)
  let ?tail = "map dash_to_blank (join_dash (u # ts))"
  have wf: "wellformed_token t" and wfs: "list_all wellformed_token (u # ts)"
    using "3.prems"(2) by simp_all
  have ex: "extract_size_t \<lparr>buf = sp @ t @ ('' '' @ ?tail), failbit = False, eofbit = False\<rparr>
          = (\<lparr>buf = '' '' @ ?tail, failbit = False, eofbit = False\<rparr>, Some (dec_value t))"
    by (rule extract_token [OF "3.prems"(1) wf]) (simp_all add: isdigit_c_def)
  have "parse_loop \<lparr>buf = sp @ t @ ('' '' @ ?tail), failbit = False, eofbit = False\<rparr> out
      = parse_loop \<lparr>buf = '' '' @ ?tail, failbit = False, eofbit = False\<rparr> (out @ [dec_value t])"
    by (rule parse_loop_Some [OF _ ex]) simp
  also have "\<dots> = (out @ [dec_value t]) @ map dec_value (u # ts)"
    by (rule "3.IH" [OF _ wfs]) (simp add: isspace_c_def)
  finally show ?case
    by (simp add: dash_to_blank_token [OF wf] dash_to_blank_def [of "CHR ''-''"])
qed

lemma ParseDashSeparatedString_wellformed:
  assumes "list_all wellformed_token ts"
  shows "ParseDashSeparatedString (join_dash ts) out = out @ map dec_value ts"
  using parse_loop_wellformed [of "[]" ts out] assms
  by (simp add: ParseDashSeparatedString_def)

lemma malformed_start_hd: "malformed_start b \<Longrightarrow> b @ rest \<noteq> [] \<and> \<not> isdigit_c (hd (b @ rest))"
  by (cases b) (simp_all add: malformed_start_def)

lemma parse_loop_tokens_digit_prefix:
  assumes "list_all isspace_c sp" "list_all wellformed_token ts" "wellformed_token p"
    "malformed_start b"
  shows "parse_loop \<lparr>buf = sp @ concat (map (\<lambda>t. t @ '' '') ts) @ p @ b @ rest,
                      failbit = False, eofbit = False\<rparr> out
           = out @ map dec_value ts @ [dec_value p]"
  using assms(1,2)
proof (induction ts arbitrary: sp out)
  case Nil
  have ex: "extract_size_t \<lparr>buf = sp @ p @ (b @ rest), failbit = False, eofbit = False\<rparr>
          = (\<lparr>buf = b @ rest, failbit = False, eofbit = False\<rparr>, Some (dec_value p))"
    using malformed_start_hd [OF assms(4), of rest]
    by (intro extract_token [OF Nil(1) assms(3)]) simp_all
  have "parse_loop \<lparr>buf = sp @ p @ (b @ rest), failbit = False, eofbit = False\<rparr> out
      = parse_loop \<lparr>buf = b @ rest, failbit = False, eofbit = False\<rparr> (out @ [dec_value p])"
    by (rule parse_loop_Some [OF _ ex]) simp
  also have "\<dots> = out @ [dec_value p]"
    using parse_loop_tokens [of "[]" "[]" b rest "out @ [dec_value p]"] assms(4) by simp
  finally show ?case by simp
next
  case (Cons t ts)
  let ?tail = "concat (map (\<lambda>t. t @ '' '') ts) @ p @ b @ rest"
  have wf: "wellformed_token t" and wfs: "list_all wellformed_token ts"
    using Cons.prems(2) by simp_all
  have ex: "extract_size_t \<lparr>buf = sp @ t @ ('' '' @ ?tail), failbit = False, eofbit = False\<rparr>
          = (\<lparr>buf = '' '' @ ?tail, failbit = False, eofbit = False\<rparr>, Some (dec_value t))"
    by (rule extract_token [OF Cons.prems(1) wf]) (simp_all add: isdigit_c_def)
  have "parse_loop \<lparr>buf = sp @ t @ ('' '' @ ?tail), failbit = False, eofbit = False\<rparr> out
      = parse_loop \<lparr>buf = '' '' @ ?tail, failbit = False, eofbit = False\<rparr> (out @ [dec_value t])"
    by (rule parse_loop_Some [OF _ ex]) simp
  also have "\<dots> = (out @ [dec_value t]) @ map dec_value ts @ [dec_value p]"
    by (rule Cons.IH [OF _ wfs]) (simp add: isspace_c_def)
  finally show ?case by simp
qed

lemma ParseDashSeparatedString_digit_prefix:
  assumes "list_all wellformed_token ts" "wellformed_token p" "malformed_start b"
  shows "ParseDashSeparatedString (concat (map (\<lambda>t. t @ ''-'') ts) @ p @ b @ rest) out
           = out @ map dec_value ts @ [dec_value p]"
proof -
  have "parse_loop
          \<lparr>buf = [] @ concat (map (\<lambda>t. t @ '' '') ts) @ p @ map dash_to_blank b
                     @ map dash_to_blank rest,
           failbit = False, eofbit = False\<rparr> out = out @ map dec_value ts @ [dec_value p]"
    by (rule parse_loop_tokens_digit_prefix
              [OF _ assms(1) assms(2) malformed_start_map [OF assms(3)]]) simp
  then show ?thesis
    by (simp add: ParseDashSeparatedString_def dash_to_blank_tokens [OF assms(1)]
          dash_to_blank_token [OF assms(2)])
qed

text \<open>
  C1, as the code has it. \<^verbatim>\<open>"1-2-3"\<close> is parsed to \<open>[1, 2, 3]\<close> and \<^verbatim>\<open>"5"\<close> to \<open>[5]\<close>.
  A malformed token is not skipped: no error is raised, but the failed extraction ends the
  loop. When well-formed tokens, each followed by a dash, are followed by a character that
  is neither a digit, a sign, white space nor a dash, the output gains the values of those
  tokens, in order, and nothing more, whatever comes after that character. When such a
  character comes directly after a run of digits that is a well-formed number, as in
  \<^verbatim>\<open>"20abc"\<close>, the value of that run is appended as well, and nothing after it.
\<close>

theorem C1_parse_stops_at_malformed_token:
  "ParseDashSeparatedString ''1-2-3'' [] = [1, 2, 3] \<and>
   ParseDashSeparatedString ''5'' [] = [5] \<and>
   (list_all wellformed_token ts \<and> malformed_start b \<longrightarrow>
      ParseDashSeparatedString (concat (map (\<lambda>t. t @ ''-'') ts) @ b @ rest) out
        = out @ map dec_value ts) \<and>
   (list_all wellformed_token ts \<and> wellformed_token p \<and> malformed_start b \<longrightarrow>
      ParseDashSeparatedString (concat (map (\<lambda>t. t @ ''-'') ts) @ p @ b @ rest) out
        = out @ map dec_value ts @ [dec_value p])"
proof (intro conjI impI)
  show "ParseDashSeparatedString ''1-2-3'' [] = [1, 2, 3]"
    by (simp add: ParseDashSeparatedString_def parse_loop_eval parser_eval)
  show "ParseDashSeparatedString ''5'' [] = [5]"
    by (simp add: ParseDashSeparatedString_def parse_loop_eval parser_eval)
next
  assume "list_all wellformed_token ts \<and> malformed_start b"
  then show "ParseDashSeparatedString (concat (map (\<lambda>t. t @ ''-'') ts) @ b @ rest) out
               = out @ map dec_value ts"
    by (simp add: ParseDashSeparatedString_prefix)
next
  assume "list_all wellformed_token ts \<and> wellformed_token p \<and> malformed_start b"
  then show "ParseDashSeparatedString (concat (map (\<lambda>t. t @ ''-'') ts) @ p @ b @ rest) out
               = out @ map dec_value ts @ [dec_value p]"
    by (simp add: ParseDashSeparatedString_digit_prefix)
qed

theorem C1_parse_stops_at_malformed_token_witness:
  "list_all wellformed_token [''12'', ''7''] \<and> malformed_start ''x9'' \<and>
   ParseDashSeparatedString ''12-7-x9-3'' [4] = [4, 12, 7] \<and>
   wellformed_token ''20'' \<and> malformed_start ''abc'' \<and>
   ParseDashSeparatedString ''12-7-20abc-30-40'' [] = [12, 7, 20]"
proof -
  have wf: "list_all wellformed_token [''12'', ''7'']" and wp: "wellformed_token ''20''"
    by (simp_all add: wellformed_token_def parser_eval)
  have mf: "malformed_start ''x9''" and ma: "malformed_start ''abc''"
    by (simp_all add: malformed_start_def parser_eval)
  have 1: "ParseDashSeparatedString (concat (map (\<lambda>t. t @ ''-'') [''12'', ''7'']) @ ''x9'' @ ''-3'') [4]
          = [4] @ map dec_value [''12'', ''7'']"
    using C1_parse_stops_at_malformed_token [of "[''12'', ''7'']" "''x9''" "''-3''" "[4]"] wf mf
    by blast
  have 2: "ParseDashSeparatedString
             (concat (map (\<lambda>t. t @ ''-'') [''12'', ''7'']) @ ''20'' @ ''abc'' @ ''-30-40'') []
          = [] @ map dec_value [''12'', ''7''] @ [dec_value ''20'']"
    using C1_parse_stops_at_malformed_token
            [of "[''12'', ''7'']" "''abc''" "''-30-40''" "[]" "''20''"] wf wp ma
    by blast
  from 1 2 show ?thesis using wf mf wp ma by (simp add: parser_eval)
qed

text \<open>
  C1 as stated fails: in \<^verbatim>\<open>"1-x-3"\<close> the well-formed token \<^verbatim>\<open>3\<close> after the malformed
  \<^verbatim>\<open>x\<close> is not parsed.
\<close>

theorem C1_token_after_malformed_not_parsed:
  "ParseDashSeparatedString ''1-x-3'' [] = [1] \<and>
   3 \<notin> set (ParseDashSeparatedString ''1-x-3'' [])"
  by (simp add: ParseDashSeparatedString_def parse_loop_eval parser_eval)

section \<open>Properties of the board environment\<close>

text \<open>
  C3. When the requested dimensions differ from those of the current board,
  \<open>NewGame\<close> replaces the working board by a newly constructed one, on which the four
  toggles \<^verbatim>\<open>use_vcs\<close>, \<^verbatim>\<open>use_ice\<close>, \<^verbatim>\<open>use_decompositions\<close> and
  \<^verbatim>\<open>backup_ice_info\<close> have the values they had on the old board.
\<close>

theorem C3_resize_keeps_toggles:
  assumes "Width (GetPosition (brd env)) \<noteq> w \<or> Height (GetPosition (brd env)) \<noteq> h"
  shows "brd (NewGame B env w h) =
           (new_HexBoard B w h (ice env) (buildParam env))
             \<lparr>GetPosition :=
                StartNewGame B (GetPosition (new_HexBoard B w h (ice env) (buildParam env))),
              UseVCs := UseVCs (brd env),
              UseICE := UseICE (brd env),
              UseDecompositions := UseDecompositions (brd env),
              BackupIceInfo := BackupIceInfo (brd env)\<rparr>
         \<and> UseVCs (brd (NewGame B env w h)) = UseVCs (brd env)
         \<and> UseICE (brd (NewGame B env w h)) = UseICE (brd env)
         \<and> UseDecompositions (brd (NewGame B env w h)) = UseDecompositions (brd env)
         \<and> BackupIceInfo (brd (NewGame B env w h)) = BackupIceInfo (brd env)"
  using assms by (auto simp: NewGame_def Let_def)

theorem C3_resize_keeps_toggles_witness:
  "Width (GetPosition (brd env0)) \<noteq> 7
   \<and> GetPosition (brd (NewGame board_ops0 env0 7 9)) = \<lparr>Width = 7, Height = 9, stones = []\<rparr>
   \<and> built (brd (NewGame board_ops0 env0 7 9)) = 0
   \<and> UseVCs (brd (NewGame board_ops0 env0 7 9)) = False
   \<and> UseICE (brd (NewGame board_ops0 env0 7 9)) = True
   \<and> UseDecompositions (brd (NewGame board_ops0 env0 7 9)) = False
   \<and> BackupIceInfo (brd (NewGame board_ops0 env0 7 9)) = True"
proof -
  have h: "Width (GetPosition (brd env0)) \<noteq> 7 \<or> Height (GetPosition (brd env0)) \<noteq> 9"
    by (simp add: env0_def)
  show ?thesis
    using C3_resize_keeps_toggles [OF h, of board_ops0]
    by (simp add: env0_def board_ops0_def)
qed

lemma ParamVC_set_shown:
  assumes "NuArg cmd = 2" and "ParamVC env cmd = (env', Inr out)" and "NuArg q = 0"
  shows "\<exists>item. bool_value cmd = Some item
             \<and> shown (bool_label (Arg cmd 0)) (response (ParamVC env' q)) = Some item"
  using assms
  by (auto simp: ParamVC_def Let_def set_from_def VCBuilderParameters_def
        VCBuilderParameters_update_def response_def bool_label_def bool_value_def
      split: if_splits sum.splits)

lemma NewGame_buildParam: "buildParam (NewGame B env w h) = buildParam env"
  by (simp add: NewGame_def Let_def)

lemma ParamVC_query_NewGame:
  "NuArg q = 0 \<Longrightarrow> response (ParamVC (NewGame B env w h) q) = response (ParamVC env q)"
  by (simp add: ParamVC_def Let_def VCBuilderParameters_def NewGame_buildParam response_def)

text \<open>
  C4. The builder-tuning flags survive a reset of the board environment: \<open>NewGame\<close>
  leaves them as they are, for any dimensions, and a flag set through the VC parameter
  command is shown with the value set by a query made after the reset.
\<close>

theorem C4_builder_flags_survive_resize:
  "VCBuilderParameters (NewGame B env w h) = VCBuilderParameters env \<and>
   (NuArg cmd = 2 \<and> ParamVC env_before cmd = (env, Inr out) \<and> NuArg q = 0 \<longrightarrow>
      (\<exists>item. bool_value cmd = Some item
          \<and> shown (bool_label (Arg cmd 0)) (response (ParamVC env q)) = Some item
          \<and> shown (bool_label (Arg cmd 0)) (response (ParamVC (NewGame B env w h) q))
              = Some item))"
  using ParamVC_set_shown [of cmd env_before env out q]
  by (auto simp: VCBuilderParameters_def NewGame_buildParam ParamVC_query_NewGame)

theorem C4_builder_flags_survive_resize_witness:
  "and_over_edge (VCBuilderParameters env0) = False
   \<and> shown ''[bool] and_over_edge ''
        (response (ParamVC
           (NewGame board_ops0 (fst (ParamVC env0 (set_bool_cmd ''and_over_edge'' ''1'' True))) 7 9)
           query_cmd))
       = Some (OBool True)"
proof -
  let ?cmd = "set_bool_cmd ''and_over_edge'' ''1'' True"
  have n: "NuArg ?cmd = 2" and q: "NuArg query_cmd = 0"
    and a: "Arg ?cmd 0 = ''and_over_edge''" and v: "bool_value ?cmd = Some (OBool True)"
    by (simp_all add: set_bool_cmd_def query_cmd_def NuArg_def Arg_def bool_value_def)
  have s: "ParamVC env0 ?cmd = (fst (ParamVC env0 ?cmd), Inr [])"
    by (simp add: ParamVC_def Let_def set_from_def set_bool_cmd_def NuArg_def Arg_def)
  have "\<exists>item. bool_value ?cmd = Some item
          \<and> shown (bool_label (Arg ?cmd 0)) (response (ParamVC (fst (ParamVC env0 ?cmd)) query_cmd))
              = Some item
          \<and> shown (bool_label (Arg ?cmd 0))
               (response (ParamVC (NewGame board_ops0 (fst (ParamVC env0 ?cmd)) 7 9) query_cmd))
              = Some item"
    using C4_builder_flags_survive_resize
            [of board_ops0 "fst (ParamVC env0 ?cmd)" 7 9 ?cmd env0 "[]" query_cmd] n q s
    by blast
  then have "shown (bool_label ''and_over_edge'')
               (response (ParamVC (NewGame board_ops0 (fst (ParamVC env0 ?cmd)) 7 9) query_cmd))
              = Some (OBool True)"
    using v a by auto
  moreover have "and_over_edge (VCBuilderParameters env0) = False"
    by (simp add: VCBuilderParameters_def env0_def param0_def)
  ultimately show ?thesis by (simp add: bool_label_def)
qed

text \<open>
  C5, as the code has it. When the requested dimensions equal those of the current
  board, \<open>NewGame\<close> keeps the working board object with its toggles and the data built
  on it, but it still restarts the position: \<^verbatim>\<open>StartNewGame()\<close> is called on it outside
  the test of the dimensions.
\<close>

theorem C5_same_size_restarts_position_only:
  assumes "Width (GetPosition (brd env)) = w" and "Height (GetPosition (brd env)) = h"
  shows "NewGame B env w h =
           env\<lparr>brd := (brd env)\<lparr>GetPosition := StartNewGame B (GetPosition (brd env))\<rparr>\<rparr>
         \<and> built (brd (NewGame B env w h)) = built (brd env)
         \<and> UseVCs (brd (NewGame B env w h)) = UseVCs (brd env)
         \<and> UseICE (brd (NewGame B env w h)) = UseICE (brd env)
         \<and> UseDecompositions (brd (NewGame B env w h)) = UseDecompositions (brd env)
         \<and> BackupIceInfo (brd (NewGame B env w h)) = BackupIceInfo (brd env)
         \<and> GetPosition (brd (NewGame B env w h)) = StartNewGame B (GetPosition (brd env))"
  using assms by (simp add: NewGame_def Let_def)

theorem C5_same_size_restarts_position_only_witness:
  "Width (GetPosition (brd env0)) = 5 \<and> Height (GetPosition (brd env0)) = 5
   \<and> built (brd (NewGame board_ops0 env0 5 5)) = 7
   \<and> UseVCs (brd (NewGame board_ops0 env0 5 5)) = False
   \<and> GetPosition (brd (NewGame board_ops0 env0 5 5)) = \<lparr>Width = 5, Height = 5, stones = []\<rparr>"
proof -
  have w: "Width (GetPosition (brd env0)) = 5" and h: "Height (GetPosition (brd env0)) = 5"
    by (simp_all add: env0_def)
  show ?thesis
    using C5_same_size_restarts_position_only [OF w h, of board_ops0]
    by (simp add: env0_def board_ops0_def)
qed

text \<open>
  C5 as stated fails: on a 5 by 5 board with a stone, a reset to 5 by 5 is not a no-op,
  the position loses the stone.
\<close>

theorem C5_same_size_not_a_noop:
  "Width (GetPosition (brd env0)) = 5 \<and> Height (GetPosition (brd env0)) = 5
   \<and> stones (GetPosition (brd env0)) = [(CELL 12, BLACK)]
   \<and> stones (GetPosition (brd (NewGame board_ops0 env0 5 5))) = []
   \<and> NewGame board_ops0 env0 5 5 \<noteq> env0"
proof -
  have a: "stones (GetPosition (brd (NewGame board_ops0 env0 5 5))) = []"
    by (simp add: NewGame_def Let_def env0_def board_ops0_def)
  have b: "stones (GetPosition (brd env0)) = [(CELL 12, BLACK)]"
    by (simp add: env0_def)
  from a b have "NewGame board_ops0 env0 5 5 \<noteq> env0" by auto
  with a b show ?thesis by (simp add: env0_def)
qed

section \<open>Properties of the engine\<close>

text \<open>
  C2, at the input where the code departs from it. With no table allocated,
  \<^verbatim>\<open>wolve-scores\<close> and \<^verbatim>\<open>wolve-data\<close> fail with \<^verbatim>\<open>"No hashtable!"\<close>, whereas
  \<^verbatim>\<open>wolve-get-pv\<close> makes no test and dereferences the null pointer.
\<close>

theorem C2_get_pv_without_table:
  "CmdGetPV X (SetHashTable None e) cmd = (SetHashTable None e, Inl NullPointerDereference) \<and>
   CmdScores X (SetHashTable None e) cmd
     = (SetHashTable None e, Inl (HtpFailure ''No hashtable!'')) \<and>
   CmdData X (SetHashTable None e) cmd
     = (SetHashTable None e, Inl (HtpFailure ''No hashtable!''))"
  by (simp add: CmdGetPV_def CmdScores_def CmdData_def SetHashTable_def)

text \<open>
  C6. On the first move of a game the swap check comes before any search: when it
  decides to swap, \<open>GenMove\<close> returns \<open>SWAP_PIECES\<close> and leaves the engine as it was,
  whatever the two searches would do, so neither is run. When the move is not the first
  one, the swap heuristic has no part in the result, which is that of the search.
\<close>

theorem C6_swap_check_before_search:
  "(is_opening_move X (m_game e) \<and> swap_heuristic X (m_game e) color \<longrightarrow>
      (\<forall>f g. GenMove (X\<lparr>PlayAndSolve_GenMove := f, WolvePlayer_GenMove := g\<rparr>) e color clk
               = (SWAP_PIECES, e))) \<and>
   (is_opening_move X (m_game e) \<and> \<not> swap_heuristic X (m_game e) color \<longrightarrow>
      GenMove X e color clk = GenMove_search X e color) \<and>
   (\<not> is_opening_move X (m_game e) \<longrightarrow>
      GenMove X e color clk = GenMove_search X e color \<and>
      (\<forall>h. GenMove (X\<lparr>swap_heuristic := h\<rparr>) e color clk = GenMove X e color clk))"
  by (simp add: GenMove_def PlaySwap_def GenMove_search_def TimeForMove_def Let_def)

theorem C6_swap_check_before_search_witness:
  "is_opening_move engine_ops0 (m_game engine0) \<and> swap_heuristic engine_ops0 (m_game engine0) WHITE
   \<and> GenMove engine_ops0 engine0 WHITE True = (SWAP_PIECES, engine0)
   \<and> swap_heuristic engine_ops0 (m_game engine0) BLACK = False
   \<and> GenMove engine_ops0 engine0 BLACK True = GenMove_search engine_ops0 engine0 BLACK
   \<and> is_opening_move engine_ops0 (m_game (engine0\<lparr>m_game := game0\<lparr>History := []\<rparr>\<rparr>)) = False
   \<and> GenMove engine_ops0 (engine0\<lparr>m_game := game0\<lparr>History := []\<rparr>\<rparr>) WHITE True
       = GenMove_search engine_ops0 (engine0\<lparr>m_game := game0\<lparr>History := []\<rparr>\<rparr>) WHITE"
proof -
  have o: "is_opening_move engine_ops0 (m_game engine0)"
    by (simp add: engine_ops0_def engine0_def game0_def)
  have w: "swap_heuristic engine_ops0 (m_game engine0) WHITE"
    and b: "\<not> swap_heuristic engine_ops0 (m_game engine0) BLACK"
    by (simp_all add: engine_ops0_def)
  have n: "\<not> is_opening_move engine_ops0 (m_game (engine0\<lparr>m_game := game0\<lparr>History := []\<rparr>\<rparr>))"
    by (simp add: engine_ops0_def)
  have 1: "GenMove engine_ops0 engine0 WHITE True = (SWAP_PIECES, engine0)"
    using C6_swap_check_before_search [of engine_ops0 engine0 WHITE True] o w
    apply (elim conjE)
    apply (drule mp, simp)
    apply (drule spec [of _ "PlayAndSolve_GenMove engine_ops0"])
    apply (drule spec [of _ "WolvePlayer_GenMove engine_ops0"])
    apply simp
    done
  have 2: "GenMove engine_ops0 engine0 BLACK True = GenMove_search engine_ops0 engine0 BLACK"
    using C6_swap_check_before_search [of engine_ops0 engine0 BLACK True] o b by blast
  have 3: "GenMove engine_ops0 (engine0\<lparr>m_game := game0\<lparr>History := []\<rparr>\<rparr>) WHITE True
       = GenMove_search engine_ops0 (engine0\<lparr>m_game := game0\<lparr>History := []\<rparr>\<rparr>) WHITE"
    using C6_swap_check_before_search
            [of engine_ops0 "engine0\<lparr>m_game := game0\<lparr>History := []\<rparr>\<rparr>" WHITE True] n
    by blast
  from o w b n 1 2 3 show ?thesis by simp
qed

lemma shl_int_one: "0 \<le> N \<Longrightarrow> N \<le> 30 \<Longrightarrow> shl_int u 1 N = 2 ^ nat N"
proof -
  assume a: "0 \<le> N" "N \<le> 30"
  then have "nat N \<le> 30" by simp
  then have "(2::int) ^ nat N \<le> 2 ^ 30" by (intro power_increasing) simp_all
  then show ?thesis using a by (simp add: shl_int_def INT_MAX_def)
qed

text \<open>
  C7, as the code has it. The command \<^verbatim>\<open>tt_bits N\<close> with \<open>N = 0\<close> leaves the player
  without a table; with \<open>1 \<le> N \<le> 30\<close> it replaces the table by a new one of
  \<open>2 ^ N\<close> entries that holds nothing, whatever the old table held.
\<close>

theorem C7_tt_bits_resizes_table:
  assumes "NuArg cmd = 2" and "Arg cmd 0 = ''tt_bits''" and "ArgMinInt cmd 1 0 = Inr N"
  shows "(N = 0 \<longrightarrow>
            CmdParam X e cmd = (e\<lparr>m_player := (m_player e)\<lparr>HashTable := None\<rparr>\<rparr>, Inr [])) \<and>
         (1 \<le> N \<and> N \<le> 30 \<longrightarrow>
            CmdParam X e cmd =
              (e\<lparr>m_player := (m_player e)
                   \<lparr>HashTable := Some \<lparr>MaxHash = 2 ^ nat N, entries = []\<rparr>\<rparr>\<rparr>, Inr []))"
  using assms
  by (auto simp: CmdParam_def Let_def SetHashTable_def SgSearchHashTable_new_def shl_int_one)

theorem C7_tt_bits_resizes_table_witness:
  "NuArg (tt_bits_cmd 0) = 2 \<and> Arg (tt_bits_cmd 0) 0 = ''tt_bits''
   \<and> ArgMinInt (tt_bits_cmd 0) 1 0 = Inr 0
   \<and> HashTable (m_player (fst (CmdParam engine_ops0 engine0 (tt_bits_cmd 0)))) = None
   \<and> ArgMinInt (tt_bits_cmd 3) 1 0 = Inr 3
   \<and> HashTable (m_player (fst (CmdParam engine_ops0 engine0 (tt_bits_cmd 3))))
       = Some \<lparr>MaxHash = 8, entries = []\<rparr>"
proof -
  have a: "NuArg (tt_bits_cmd n) = 2" "Arg (tt_bits_cmd n) 0 = ''tt_bits''" for n
    by (simp_all add: tt_bits_cmd_def NuArg_def Arg_def)
  have b0: "ArgMinInt (tt_bits_cmd 0) 1 0 = Inr 0" and b3: "ArgMinInt (tt_bits_cmd 3) 1 0 = Inr 3"
    by (simp_all add: tt_bits_cmd_def)
  show ?thesis
    using C7_tt_bits_resizes_table [OF a b0, of engine_ops0 engine0]
      C7_tt_bits_resizes_table [OF a b3, of engine_ops0 engine0] a b0 b3
    by simp
qed

text \<open>
  Whatever the undefined shift yields, the size handed to the constructor is an \<^verbatim>\<open>int\<close>:
  for \<open>N \<ge> 31\<close> no platform gives a table of \<open>2 ^ N\<close> entries.
\<close>

lemma shl_int_le_INT_MAX: "shl_int u a bits \<le> INT_MAX"
proof -
  have "(u a bits + 2 ^ 31) mod 2 ^ 32 < (2 ^ 32 :: int)"
    by (rule pos_mod_bound) simp
  then have "to_int32 (u a bits) \<le> INT_MAX"
    by (simp add: to_int32_def INT_MAX_def)
  then show ?thesis by (simp add: shl_int_def)
qed

lemma tt_bits_above_30:
  assumes "NuArg cmd = 2" and "Arg cmd 0 = ''tt_bits''" and "ArgMinInt cmd 1 0 = Inr N"
    and "31 \<le> N"
  shows "HashTable (m_player (fst (CmdParam X e cmd))) \<noteq> Some \<lparr>MaxHash = 2 ^ nat N, entries = []\<rparr>"
proof -
  have "nat N \<ge> 31" using assms(4) by simp
  then have "(2::int) ^ 31 \<le> 2 ^ nat N" by (intro power_increasing) simp_all
  then have "shl_int (undefined_shl X) 1 N < 2 ^ nat N"
    using shl_int_le_INT_MAX [of "undefined_shl X" 1 N] by (simp add: INT_MAX_def)
  then show ?thesis
    using assms
    by (simp add: CmdParam_def Let_def SetHashTable_def SgSearchHashTable_new_def)
qed

text \<open>
  C7 as stated fails: \<^verbatim>\<open>tt_bits 32\<close> passes the lower bound of the accessor, and
  \<^verbatim>\<open>1 << 32\<close> is not a value of \<^verbatim>\<open>int\<close>. The handler goes on and installs a table of
  the size the shift happens to give, one entry on the sample platform, not \<open>2 ^ 32\<close>.
\<close>

theorem C7_tt_bits_32_overflows:
  "NuArg (tt_bits_cmd 32) = 2 \<and> Arg (tt_bits_cmd 32) 0 = ''tt_bits''
   \<and> ArgMinInt (tt_bits_cmd 32) 1 0 = Inr 32
   \<and> snd (CmdParam engine_ops0 engine0 (tt_bits_cmd 32)) = Inr []
   \<and> HashTable (m_player (fst (CmdParam engine_ops0 engine0 (tt_bits_cmd 32))))
       = Some \<lparr>MaxHash = 1, entries = []\<rparr>
   \<and> HashTable (m_player (fst (CmdParam engine_ops0 engine0 (tt_bits_cmd 32))))
       \<noteq> Some \<lparr>MaxHash = 2 ^ 32, entries = []\<rparr>"
proof -
  have sh: "shl_int (undefined_shl engine_ops0) 1 32 = 1"
    by (simp add: shl_int_def INT_MAX_def to_int32_def engine_ops0_def)
  have c: "CmdParam engine_ops0 engine0 (tt_bits_cmd 32)
             = (SetHashTable (Some (SgSearchHashTable_new 1)) engine0, Inr [])"
    by (simp add: CmdParam_def Let_def tt_bits_cmd_def NuArg_def Arg_def sh)
  show ?thesis
    by (simp add: c SetHashTable_def SgSearchHashTable_new_def)
       (simp add: tt_bits_cmd_def NuArg_def Arg_def)
qed

section \<open>Properties of the parameter commands\<close>

lemma ParamICE_set_shown:
  assumes "NuArg cmd = 2" and "ParamICE env cmd = (env', Inr out)" and "NuArg q = 0"
  shows "\<exists>item. bool_value cmd = Some item
             \<and> shown (bool_label (Arg cmd 0)) (response (ParamICE env' q)) = Some item"
  using assms
  by (auto simp: ParamICE_def Let_def set_from_def response_def bool_label_def bool_value_def
      split: if_splits sum.splits)

lemma ParamBoard_set_shown:
  assumes "NuArg cmd = 2" and "ParamBoard env cmd = (env', Inr out)" and "NuArg q = 0"
  shows "\<exists>item. bool_value cmd = Some item
             \<and> shown (bool_label (Arg cmd 0)) (response (ParamBoard env' q)) = Some item"
  using assms
  by (auto simp: ParamBoard_def Let_def set_from_def response_def bool_label_def bool_value_def
      split: if_splits sum.splits)

lemma log2_shl:
  assumes "0 \<le> bits" and "bits \<le> 30"
  shows "log 2 (real_of_int (shl_int u 1 bits)) = real_of_int bits"
proof -
  have "log 2 (real_of_int (shl_int u 1 bits)) = log 2 (2 ^ nat bits)"
    by (simp add: shl_int_one [OF assms])
  also have "\<dots> = real (nat bits)" by (simp add: log_nat_power)
  finally show ?thesis using assms by simp
qed

lemma CmdParam_set_shown:
  assumes "NuArg cmd = 2" and "CmdParam X e cmd = (e', Inr out)" and "NuArg q = 0"
    and "Arg cmd 0 \<noteq> ''ply_width''"
    and "Arg cmd 0 = ''tt_bits'' \<longrightarrow> tt_bits_in_range cmd"
  shows "\<exists>item. param_wolve_value cmd = Some item
             \<and> shown (param_wolve_label (Arg cmd 0)) (response (CmdParam X e' q)) = Some item"
  using assms
  by (auto simp: CmdParam_def Let_def set_from_def response_def param_wolve_label_def
        param_wolve_value_def bool_value_def SetSearch_def SetHashTable_def
        SgSearchHashTable_new_def log2_shl tt_bits_in_range_def
      split: if_splits sum.splits)

lemma CmdParam_ply_width:
  assumes "NuArg cmd = 2" and "Arg cmd 0 = ''ply_width''" and "NuArg q = 0"
  shows "snd (CmdParam X e cmd) = Inr [] \<and>
         shown ''[string] ply_width '' (response (CmdParam X (fst (CmdParam X e cmd)) q))
           = Some (OStr (PrintVector X (ParseDashSeparatedString (Arg cmd 1) [])))"
  using assms
  by (simp add: CmdParam_def Let_def response_def SetSearch_def)

text \<open>
  C8, as the code has it. When a command with two arguments returns normally, a query
  with no argument made on the resulting state lists the parameter named by the first
  argument with the value that was set: for every parameter of the ICE, VC and board
  commands, for every parameter of the engine's command other than \<^verbatim>\<open>ply_width\<close> and
  \<^verbatim>\<open>tt_bits\<close>, and for \<^verbatim>\<open>tt_bits\<close> with a value from 0 to 30. For \<^verbatim>\<open>ply_width\<close>, an
  argument made of well-formed tokens joined by dashes is accepted and the query lists
  the values of these tokens, in order.
\<close>

theorem C8_set_then_query:
  "(NuArg cmd = 2 \<and> NuArg q = 0 \<and> CmdParam X e cmd = (e', Inr out)
      \<and> Arg cmd 0 \<noteq> ''ply_width'' \<and> (Arg cmd 0 = ''tt_bits'' \<longrightarrow> tt_bits_in_range cmd) \<longrightarrow>
      (\<exists>item. param_wolve_value cmd = Some item
          \<and> shown (param_wolve_label (Arg cmd 0)) (response (CmdParam X e' q)) = Some item)) \<and>
   (NuArg cmd = 2 \<and> NuArg q = 0 \<and> Arg cmd 0 = ''ply_width'' \<and> Arg cmd 1 = join_dash ts
      \<and> list_all wellformed_token ts \<longrightarrow>
      snd (CmdParam X e cmd) = Inr [] \<and>
      shown ''[string] ply_width '' (response (CmdParam X (fst (CmdParam X e cmd)) q))
        = Some (OStr (PrintVector X (map dec_value ts)))) \<and>
   (NuArg cmd = 2 \<and> NuArg q = 0 \<and> ParamICE env cmd = (env', Inr out) \<longrightarrow>
      (\<exists>item. bool_value cmd = Some item
          \<and> shown (bool_label (Arg cmd 0)) (response (ParamICE env' q)) = Some item)) \<and>
   (NuArg cmd = 2 \<and> NuArg q = 0 \<and> ParamVC env cmd = (env', Inr out) \<longrightarrow>
      (\<exists>item. bool_value cmd = Some item
          \<and> shown (bool_label (Arg cmd 0)) (response (ParamVC env' q)) = Some item)) \<and>
   (NuArg cmd = 2 \<and> NuArg q = 0 \<and> ParamBoard env cmd = (env', Inr out) \<longrightarrow>
      (\<exists>item. bool_value cmd = Some item
          \<and> shown (bool_label (Arg cmd 0)) (response (ParamBoard env' q)) = Some item))"
  using CmdParam_set_shown [of cmd X e e' out q] ParamICE_set_shown [of cmd env env' out q]
    ParamVC_set_shown [of cmd env env' out q] ParamBoard_set_shown [of cmd env env' out q]
    CmdParam_ply_width [of cmd q X e] ParseDashSeparatedString_wellformed [of ts "[]"]
  by auto

theorem C8_set_then_query_witness:
  "shown ''[string] tt_bits ''
     (response (CmdParam engine_ops0 (fst (CmdParam engine_ops0 engine0 (tt_bits_cmd 3))) query_cmd))
     = Some (ODouble 3)
   \<and> shown ''[bool] use_guifx ''
       (response (CmdParam engine_ops0
          (fst (CmdParam engine_ops0 engine0 (set_bool_cmd ''use_guifx'' ''1'' True))) query_cmd))
     = Some (OBool True)
   \<and> shown ''[string] ply_width ''
       (response (CmdParam engine_ops0
          (fst (CmdParam engine_ops0 engine0 (ply_width_cmd ''15-2-30''))) query_cmd))
     = Some (OStr ''15 2 30 '')
   \<and> shown ''[bool] use_capture ''
       (response (ParamICE (fst (ParamICE env0 (set_bool_cmd ''use_capture'' ''0'' False))) query_cmd))
     = Some (OBool False)
   \<and> shown ''[bool] limit_or ''
       (response (ParamVC (fst (ParamVC env0 (set_bool_cmd ''limit_or'' ''0'' False))) query_cmd))
     = Some (OBool False)
   \<and> shown ''[bool] use_vcs ''
       (response (ParamBoard (fst (ParamBoard env0 (set_bool_cmd ''use_vcs'' ''1'' True))) query_cmd))
     = Some (OBool True)"
proof -
  have q: "NuArg query_cmd = 0" by (simp add: query_cmd_def NuArg_def)
  have n: "NuArg (set_bool_cmd name arg v) = 2" "Arg (set_bool_cmd name arg v) 0 = name"
    "bool_value (set_bool_cmd name arg v) = Some (OBool v)" for name arg v
    by (simp_all add: set_bool_cmd_def NuArg_def Arg_def bool_value_def)
  have t: "NuArg (tt_bits_cmd 3) = 2" "Arg (tt_bits_cmd 3) 0 = ''tt_bits''"
    "param_wolve_value (tt_bits_cmd 3) = Some (ODouble 3)"
    "tt_bits_in_range (tt_bits_cmd 3)"
    by (simp_all add: tt_bits_cmd_def NuArg_def Arg_def param_wolve_value_def Let_def
          tt_bits_in_range_def)
  have g: "param_wolve_value (set_bool_cmd ''use_guifx'' ''1'' True) = Some (OBool True)"
    by (simp add: param_wolve_value_def Let_def n)
  have p: "NuArg (ply_width_cmd ''15-2-30'') = 2"
    "Arg (ply_width_cmd ''15-2-30'') 0 = ''ply_width''"
    "Arg (ply_width_cmd ''15-2-30'') 1 = join_dash [''15'', ''2'', ''30'']"
    by (simp_all add: ply_width_cmd_def NuArg_def Arg_def)
  have wf: "list_all wellformed_token [''15'', ''2'', ''30'']"
    by (simp add: wellformed_token_def parser_eval)
  have pv: "PrintVector engine_ops0 (map dec_value [''15'', ''2'', ''30'']) = ''15 2 30 ''"
    by (simp add: engine_ops0_def join_blank_def show_nat.simps parser_eval)
  let ?c0 = "ply_width_cmd ''15-2-30''"
  let ?c1 = "tt_bits_cmd 3"
  let ?c2 = "set_bool_cmd ''use_capture'' ''0'' False"
  let ?c3 = "set_bool_cmd ''limit_or'' ''0'' False"
  let ?c4 = "set_bool_cmd ''use_vcs'' ''1'' True"
  let ?c5 = "set_bool_cmd ''use_guifx'' ''1'' True"
  have s1: "CmdParam engine_ops0 engine0 ?c1 = (fst (CmdParam engine_ops0 engine0 ?c1), Inr [])"
    by (simp add: CmdParam_def Let_def tt_bits_cmd_def NuArg_def Arg_def)
  have s2: "ParamICE env0 ?c2 = (fst (ParamICE env0 ?c2), Inr [])"
    by (simp add: ParamICE_def Let_def set_from_def set_bool_cmd_def NuArg_def Arg_def)
  have s3: "ParamVC env0 ?c3 = (fst (ParamVC env0 ?c3), Inr [])"
    by (simp add: ParamVC_def Let_def set_from_def set_bool_cmd_def NuArg_def Arg_def)
  have s4: "ParamBoard env0 ?c4 = (fst (ParamBoard env0 ?c4), Inr [])"
    by (simp add: ParamBoard_def Let_def set_from_def set_bool_cmd_def NuArg_def Arg_def)
  have s5: "CmdParam engine_ops0 engine0 ?c5 = (fst (CmdParam engine_ops0 engine0 ?c5), Inr [])"
    by (simp add: CmdParam_def Let_def set_from_def set_bool_cmd_def NuArg_def Arg_def)
  have 0: "shown ''[string] ply_width ''
             (response (CmdParam engine_ops0 (fst (CmdParam engine_ops0 engine0 ?c0)) query_cmd))
           = Some (OStr (PrintVector engine_ops0 (map dec_value [''15'', ''2'', ''30''])))"
    using C8_set_then_query
            [of ?c0 query_cmd engine_ops0 engine0 _ _ "[''15'', ''2'', ''30'']"] p q wf
    by blast
  have 1: "shown (param_wolve_label (Arg ?c1 0))
             (response (CmdParam engine_ops0 (fst (CmdParam engine_ops0 engine0 ?c1)) query_cmd))
           = Some (ODouble 3)"
    using C8_set_then_query
            [of ?c1 query_cmd engine_ops0 engine0 "fst (CmdParam engine_ops0 engine0 ?c1)" "[]"]
          t q s1
    by auto
  have 5: "shown (param_wolve_label (Arg ?c5 0))
             (response (CmdParam engine_ops0 (fst (CmdParam engine_ops0 engine0 ?c5)) query_cmd))
           = Some (OBool True)"
    using C8_set_then_query
            [of ?c5 query_cmd engine_ops0 engine0 "fst (CmdParam engine_ops0 engine0 ?c5)" "[]"]
          n g q s5
    by auto
  have 2: "shown (bool_label (Arg ?c2 0)) (response (ParamICE (fst (ParamICE env0 ?c2)) query_cmd))
           = Some (OBool False)"
    using C8_set_then_query
            [of ?c2 query_cmd _ _ _ "[]" _ env0 "fst (ParamICE env0 ?c2)"] n q s2
    by auto
  have 3: "shown (bool_label (Arg ?c3 0)) (response (ParamVC (fst (ParamVC env0 ?c3)) query_cmd))
           = Some (OBool False)"
    using C8_set_then_query
            [of ?c3 query_cmd _ _ _ "[]" _ env0 "fst (ParamVC env0 ?c3)"] n q s3
    by auto
  have 4: "shown (bool_label (Arg ?c4 0)) (response (ParamBoard (fst (ParamBoard env0 ?c4)) query_cmd))
           = Some (OBool True)"
    using C8_set_then_query
            [of ?c4 query_cmd _ _ _ "[]" _ env0 "fst (ParamBoard env0 ?c4)"] n q s4
    by auto
  from 0 1 2 3 4 5 pv show ?thesis
    by (simp add: n t bool_label_def param_wolve_label_def)
qed

text \<open>
  C8 as stated fails on two pairs that the engine's command accepts. After
  \<^verbatim>\<open>tt_bits 32\<close> the query lists \<^verbatim>\<open>tt_bits\<close> as 0 on the sample platform, where the
  undefined shift gives a table of one entry. After \<^verbatim>\<open>ply_width 1-x-3\<close> the query lists
  only the width 1.
\<close>

theorem C8_accepted_value_not_shown:
  "NuArg (tt_bits_cmd 32) = 2 \<and> Arg (tt_bits_cmd 32) 0 = ''tt_bits''
   \<and> ArgMinInt (tt_bits_cmd 32) 1 0 = Inr 32
   \<and> snd (CmdParam engine_ops0 engine0 (tt_bits_cmd 32)) = Inr []
   \<and> shown ''[string] tt_bits ''
        (response (CmdParam engine_ops0
           (fst (CmdParam engine_ops0 engine0 (tt_bits_cmd 32))) query_cmd))
       = Some (ODouble 0)
   \<and> snd (CmdParam engine_ops0 engine0 (ply_width_cmd ''1-x-3'')) = Inr []
   \<and> shown ''[string] ply_width ''
        (response (CmdParam engine_ops0
           (fst (CmdParam engine_ops0 engine0 (ply_width_cmd ''1-x-3''))) query_cmd))
       = Some (OStr ''1 '')"
proof -
  have q: "NuArg query_cmd = 0" by (simp add: query_cmd_def NuArg_def)
  have sh: "shl_int (undefined_shl engine_ops0) 1 32 = 1"
    by (simp add: shl_int_def INT_MAX_def to_int32_def engine_ops0_def)
  have c: "CmdParam engine_ops0 engine0 (tt_bits_cmd 32)
             = (SetHashTable (Some (SgSearchHashTable_new 1)) engine0, Inr [])"
    by (simp add: CmdParam_def Let_def tt_bits_cmd_def NuArg_def Arg_def sh)
  have 1: "shown ''[string] tt_bits ''
        (response (CmdParam engine_ops0
           (fst (CmdParam engine_ops0 engine0 (tt_bits_cmd 32))) query_cmd))
       = Some (ODouble 0)"
    by (simp add: c) (simp add: CmdParam_def Let_def q response_def SetHashTable_def
          SgSearchHashTable_new_def)
  have pl: "ParseDashSeparatedString ''1-x-3'' [] = [1]"
    by (simp add: ParseDashSeparatedString_def parse_loop_eval parser_eval)
  have p: "NuArg (ply_width_cmd ''1-x-3'') = 2" "Arg (ply_width_cmd ''1-x-3'') 0 = ''ply_width''"
    "Arg (ply_width_cmd ''1-x-3'') (Suc 0) = ''1-x-3''"
    by (simp_all add: ply_width_cmd_def NuArg_def Arg_def)
  have pv: "PrintVector engine_ops0 [Suc 0] = ''1 ''"
    by (simp add: engine_ops0_def join_blank_def show_nat.simps)
  have 2: "snd (CmdParam engine_ops0 engine0 (ply_width_cmd ''1-x-3'')) = Inr [] \<and>
     shown ''[string] ply_width ''
        (response (CmdParam engine_ops0
           (fst (CmdParam engine_ops0 engine0 (ply_width_cmd ''1-x-3''))) query_cmd))
       = Some (OStr ''1 '')"
    using CmdParam_ply_width [OF p(1) p(2) q, of engine_ops0 engine0] by (simp add: p pl pv)
  from 1 2 c show ?thesis
    by (simp add: tt_bits_cmd_def NuArg_def Arg_def)
qed

lemma CmdParam_usage:
  "usage_error param_wolve_names cmd \<Longrightarrow> CmdParam X e cmd = (e, Inl (usage_failure cmd))"
  by (simp add: usage_error_def usage_failure_def param_wolve_names_def CmdParam_def Let_def
      split: if_splits)

lemma ParamICE_usage:
  "usage_error param_ice_names cmd \<Longrightarrow> ParamICE env cmd = (env, Inl (usage_failure cmd))"
  by (simp add: usage_error_def usage_failure_def param_ice_names_def ParamICE_def Let_def
      split: if_splits)

lemma ParamVC_usage:
  "usage_error param_vc_names cmd \<Longrightarrow> ParamVC env cmd = (env, Inl (usage_failure cmd))"
  by (simp add: usage_error_def usage_failure_def param_vc_names_def ParamVC_def Let_def
      split: if_splits)

lemma ParamBoard_usage:
  "usage_error param_board_names cmd \<Longrightarrow> ParamBoard env cmd = (env, Inl (usage_failure cmd))"
  by (simp add: usage_error_def usage_failure_def param_board_names_def ParamBoard_def Let_def
      split: if_splits)

text \<open>
  C9. For each of the four parameter commands, a usage error (an argument count other
  than 0 or 2, or two arguments of which the first is no known parameter name) makes the
  command fail with \<^verbatim>\<open>HtpFailure\<close> and leaves the state as it was.
\<close>

theorem C9_usage_error_changes_nothing:
  "(usage_error param_wolve_names cmd \<longrightarrow> CmdParam X e cmd = (e, Inl (usage_failure cmd))) \<and>
   (usage_error param_ice_names cmd \<longrightarrow> ParamICE env cmd = (env, Inl (usage_failure cmd))) \<and>
   (usage_error param_vc_names cmd \<longrightarrow> ParamVC env cmd = (env, Inl (usage_failure cmd))) \<and>
   (usage_error param_board_names cmd \<longrightarrow> ParamBoard env cmd = (env, Inl (usage_failure cmd)))"
  by (simp add: CmdParam_usage ParamICE_usage ParamVC_usage ParamBoard_usage)

theorem C9_usage_error_changes_nothing_witness:
  "usage_error param_wolve_names one_arg_cmd
   \<and> CmdParam engine_ops0 engine0 one_arg_cmd
       = (engine0, Inl (HtpFailure ''Expected 0 or 2 arguments''))
   \<and> usage_error param_ice_names (set_bool_cmd ''use_vcs'' ''1'' True)
   \<and> ParamICE env0 (set_bool_cmd ''use_vcs'' ''1'' True)
       = (env0, Inl (HtpFailure ''Unknown parameter: use_vcs''))
   \<and> usage_error param_vc_names (set_bool_cmd ''bogus'' ''1'' True)
   \<and> ParamVC env0 (set_bool_cmd ''bogus'' ''1'' True)
       = (env0, Inl (HtpFailure ''Unknown parameter: bogus''))
   \<and> usage_error param_board_names one_arg_cmd
   \<and> ParamBoard env0 one_arg_cmd = (env0, Inl (HtpFailure ''Expected 0 or 2 arguments''))"
proof -
  have u1: "usage_error param_wolve_names one_arg_cmd"
    and u4: "usage_error param_board_names one_arg_cmd"
    by (simp_all add: usage_error_def one_arg_cmd_def NuArg_def)
  have u2: "usage_error param_ice_names (set_bool_cmd ''use_vcs'' ''1'' True)"
    by (simp add: usage_error_def set_bool_cmd_def NuArg_def Arg_def param_ice_names_def)
  have u3: "usage_error param_vc_names (set_bool_cmd ''bogus'' ''1'' True)"
    by (simp add: usage_error_def set_bool_cmd_def NuArg_def Arg_def param_vc_names_def)
  have f1: "usage_failure one_arg_cmd = HtpFailure ''Expected 0 or 2 arguments''"
    by (simp add: usage_failure_def one_arg_cmd_def NuArg_def)
  have f2: "usage_failure (set_bool_cmd name ''1'' True) = HtpFailure (''Unknown parameter: '' @ name)"
    for name
    by (simp add: usage_failure_def set_bool_cmd_def NuArg_def Arg_def)
  show ?thesis
    using C9_usage_error_changes_nothing [of one_arg_cmd engine_ops0 engine0 env0]
      C9_usage_error_changes_nothing [of "set_bool_cmd ''use_vcs'' ''1'' True" engine_ops0 engine0 env0]
      C9_usage_error_changes_nothing [of "set_bool_cmd ''bogus'' ''1'' True" engine_ops0 engine0 env0]
      u1 u2 u3 u4
    by (simp add: f1 f2)
qed

text \<open>
  C10. The argument \<^verbatim>\<open>useGameClock\<close> of \<open>GenMove\<close> has no effect: the move returned
  and the state of the engine afterwards are the same for both of its values.
\<close>

theorem C10_useGameClock_ignored:
  "GenMove X e color True = GenMove X e color False"
  by (simp add: GenMove_def)

end
